theory Spec2Isabelle
  imports Main "HOL-Library.Char_ord" "HOL-Library.List_Lexorder" "HOL-Library.Sublist"
begin

section \<open>The multipart upload engine of the filesystem backend (package fs)\<close>

text \<open>
  The engine keeps one session descriptor per object in the in-memory map
  \<open>fs.multiparts.ActiveSession\<close>, a journal file \<open>object$multiparts\<close> beside the object,
  one file \<open>object$n\<close> per uploaded part, and a configuration file holding the persisted
  copy of the session map.  The operations are modelled as functions from a world (the
  fields of the \<open>Filesystem\<close> value together with the disk) to a result and the new world.
  Every early return of the source is a branch of the model.

  Go strings and byte slices are both \<open>char list\<close>; Go's \<open>int\<close> and \<open>int64\<close> are \<open>int\<close>
  (no operation of the engine comes near the 64-bit bounds: the only arithmetic is the
  increment of \<open>TotalParts\<close> and of the loop counter of \<open>ListObjectParts\<close>).  Time stamps
  are integers.  The engine lock is not modelled: every operation holds it from entry to
  return, so operations run one after the other.
\<close>

subsection \<open>Data\<close>

type_synonym bytes = string

record PartMetadata =
  pm_PartNumber :: int
  pm_LastModified :: int
  pm_ETag :: string
  pm_Size :: int

record MultipartSession =
  ms_UploadID :: string
  ms_Initiated :: int
  ms_TotalParts :: int
  ms_Parts :: "PartMetadata list"

record UploadMetadata =
  um_Object :: string
  um_UploadID :: string
  um_Initiated :: int

record BucketMultipartResourcesMetadata =
  bmr_KeyMarker :: string
  bmr_UploadIDMarker :: string
  bmr_NextKeyMarker :: string
  bmr_NextUploadIDMarker :: string
  bmr_MaxUploads :: int
  bmr_IsTruncated :: bool
  bmr_Upload :: "UploadMetadata list"
  bmr_Prefix :: string

record ObjectResourcesMetadata =
  orm_Bucket :: string
  orm_Object :: string
  orm_UploadID :: string
  orm_PartNumberMarker :: int
  orm_NextPartNumberMarker :: int
  orm_MaxParts :: int
  orm_IsTruncated :: bool
  orm_Part :: "PartMetadata list"

record CompletePart =
  cp_PartNumber :: int
  cp_ETag :: string

record ObjectMetadata =
  om_Bucket :: string
  om_Object :: string
  om_ContentType :: string
  om_Created :: int
  om_Md5 :: string
  om_Size :: int

text \<open>The calls into the operating system and into the atomic-file library.\<close>

datatype syscall =
    DiskStat
  | Stat string
  | MkdirAll string
  | OpenFile string
  | ReadAll string
  | Write string
  | Remove string
  | RemoveAll string
  | FileCreate string
  | CloseAndPurge string
  | Close string
  | Save

text \<open>
  The error values.  \<open>os_error c\<close> is the error returned by the call \<open>c\<close>;
  \<open>NewError\<close> is \<open>probe.NewError\<close> applied to a Go \<open>error\<close>, which may be \<open>nil\<close>
  (\<open>None\<close>).  \<open>Trace\<close> only records the call site and is the identity here.
\<close>

datatype go_error =
    BucketNameInvalid string
  | BucketNotFound string
  | InternalError
  | RootPathFull string
  | ObjectNameInvalid string string
  | InvalidUploadID string
  | InvalidDigest string
  | BadDigest string string string
  | SignatureDoesNotMatch
  | MalformedXML
  | InvalidPartOrder
  | errors_New string
  | os_error syscall
  | io_EOF
  | json_SyntaxError

datatype probe_Error = NewError "go_error option"

datatype 'a result = Return 'a | Fail probe_Error | Panic

text \<open>
  \<open>io.Reader\<close>: the bytes the reader yields, followed by end of file (\<open>None\<close>) or by an
  error.  A signature verifier maps the hex SHA-256 of the payload to the pair
  \<open>(ok, perr)\<close> of \<open>DoesSignatureMatch\<close>.
\<close>

type_synonym Reader = "bytes \<times> go_error option"

type_synonym Signature = "string \<Rightarrow> bool \<times> probe_Error option"

text \<open>
  Functions of the Go libraries and of other files of the package, taken as parameters.
  \<open>json_Encode\<close> is the document \<open>Encoder.Encode\<close> writes, \<open>json_Decode\<close> the first value
  a fresh \<open>Decoder\<close> reads from a stream.  \<open>completedParts_IsSorted\<close> is
  \<open>sort.IsSorted(completedParts(parts))\<close>, whose comparison is declared outside the
  multipart file.
\<close>

record externals =
  IsValidBucket :: "string \<Rightarrow> bool"
  IsValidObjectName :: "string \<Rightarrow> bool"
  md5_Sum :: "bytes \<Rightarrow> bytes"
  sha256_Sum :: "bytes \<Rightarrow> bytes"
  sha512_Sum512 :: "bytes \<Rightarrow> bytes"
  base64_StdEncoding_DecodeString :: "string \<Rightarrow> bytes option"
  base64_URLEncoding_EncodeToString :: "bytes \<Rightarrow> string"
  time_String :: "int \<Rightarrow> string"
  json_Encode :: "MultipartSession \<Rightarrow> bytes"
  json_Decode :: "bytes \<Rightarrow> MultipartSession option"
  xml_Unmarshal :: "bytes \<Rightarrow> CompletePart list option"
  completedParts_IsSorted :: "CompletePart list \<Rightarrow> bool"

subsection \<open>The world\<close>

datatype node = RegularFile bytes int | Directory

datatype action = Sys syscall | MapStore string | MapDelete string

text \<open>
  \<open>path\<close>, \<open>minFreeDisk\<close> and \<open>ActiveSession\<close> are the fields of the \<open>Filesystem\<close> value.
  \<open>disk\<close> maps a path to the regular file (content and modification time) or directory
  there.  \<open>tmpfiles\<close> holds the content of the temporary file of an open atomic file,
  under the path it will be renamed to.  \<open>config\<close> is the session map last written to
  the configuration file.  \<open>availableDiskSpace\<close> is the percentage the source computes in
  floating point from \<open>disk.Stat\<close>; \<open>clock\<close> is \<open>time.Now()\<close>.  \<open>fault c\<close> says that the
  call \<open>c\<close> fails for a reason outside the model (permissions, a full disk).  \<open>trace\<close> is
  the sequence of mutating calls made so far, oldest first.
\<close>

record world =
  path :: string
  minFreeDisk :: int
  ActiveSession :: "string \<rightharpoonup> MultipartSession"
  disk :: "string \<rightharpoonup> node"
  tmpfiles :: "string \<rightharpoonup> bytes"
  config :: "string \<rightharpoonup> MultipartSession"
  availableDiskSpace :: int
  clock :: int
  fault :: "syscall \<Rightarrow> bool"
  trace :: "action list"

definition log :: "action \<Rightarrow> world \<Rightarrow> world" where
  "log a w = w\<lparr>trace := trace w @ [a]\<rparr>"

subsection \<open>Strings and paths\<close>

definition strings_HasPrefix :: "string \<Rightarrow> string \<Rightarrow> bool" where
  "strings_HasPrefix s p = prefix p s"

text \<open>\<open>strings.TrimSpace\<close> on ASCII white space (the multi-byte Unicode spaces are not modelled).\<close>

definition isSpace :: "char \<Rightarrow> bool" where
  "isSpace c = (c \<in> {CHR '' '', CHR 0x09, CHR 0x0A, CHR 0x0B, CHR 0x0C, CHR 0x0D})"

definition strings_TrimSpace :: "string \<Rightarrow> string" where
  "strings_TrimSpace s = rev (dropWhile isSpace (rev (dropWhile isSpace s)))"

definition strings_Trim :: "string \<Rightarrow> string \<Rightarrow> string" where
  "strings_Trim s cutset =
     rev (dropWhile (\<lambda>c. c \<in> set cutset) (rev (dropWhile (\<lambda>c. c \<in> set cutset) s)))"

definition hexdigit :: "nat \<Rightarrow> char" where
  "hexdigit n = ''0123456789abcdef'' ! n"

definition hex_EncodeToString :: "bytes \<Rightarrow> string" where
  "hex_EncodeToString bs =
     concat (map (\<lambda>c. [hexdigit (of_char c div 16), hexdigit (of_char c mod 16)]) bs)"

definition fromHexChar :: "char \<Rightarrow> nat option" where
  "fromHexChar c =
     (let n = (of_char c :: nat) in
      if 48 \<le> n \<and> n \<le> 57 then Some (n - 48)
      else if 97 \<le> n \<and> n \<le> 102 then Some (n - 87)
      else if 65 \<le> n \<and> n \<le> 70 then Some (n - 55)
      else None)"

fun hex_DecodeString :: "string \<Rightarrow> bytes option" where
  "hex_DecodeString [] = Some []"
| "hex_DecodeString [c] = None"
| "hex_DecodeString (a # b # s) =
     (case (fromHexChar a, fromHexChar b) of
        (Some x, Some y) \<Rightarrow>
          (case hex_DecodeString s of
             None \<Rightarrow> None
           | Some bs \<Rightarrow> Some (char_of (16 * x + y) # bs))
      | _ \<Rightarrow> None)"

text \<open>\<open>fmt.Sprintf("%d", n)\<close>.\<close>

function digits10 :: "nat \<Rightarrow> string" where
  "digits10 n =
     (if n < 10 then [hexdigit n] else digits10 (n div 10) @ [hexdigit (n mod 10)])"
  by pat_completeness auto
termination
  by (relation "measure id") auto

declare digits10.simps [simp del]

definition itoa :: "int \<Rightarrow> string" where
  "itoa i = (if i < 0 then CHR ''-'' # digits10 (nat (- i)) else digits10 (nat i))"

text \<open>
  \<open>filepath.Join\<close> and \<open>filepath.Dir\<close> on paths that \<open>filepath.Clean\<close> leaves as they
  are (no empty, \<open>.\<close> or \<open>..\<close> element), which holds for validated bucket and object names.
\<close>

definition filepath_Join :: "string \<Rightarrow> string \<Rightarrow> string" where
  "filepath_Join a b = a @ ''/'' @ b"

definition filepath_Dir :: "string \<Rightarrow> string" where
  "filepath_Dir p =
     (let d = rev (dropWhile (\<lambda>c. c \<noteq> CHR ''/'') (rev p)) in
      if d = [] then ''.''
      else let e = rev (dropWhile (\<lambda>c. c = CHR ''/'') (rev d)) in
           if e = [] then ''/'' else e)"

definition ancestors :: "string \<Rightarrow> string list" where
  "ancestors p = [take n p. n \<leftarrow> [1..<length p], p ! n = CHR ''/'']"

definition partPath :: "string \<Rightarrow> int \<Rightarrow> string" where
  "partPath objectPath partID = objectPath @ CHR ''$'' # itoa partID"

definition journalPath :: "string \<Rightarrow> string" where
  "journalPath objectPath = objectPath @ ''$multiparts''"

subsection \<open>Operating system and library calls\<close>

datatype stat_result = StatOk int int | StatNotExist | StatError

text \<open>\<open>os.Stat\<close>: size and modification time (a directory reports zero for both).\<close>

definition os_Stat :: "world \<Rightarrow> string \<Rightarrow> stat_result" where
  "os_Stat w p =
     (if fault w (Stat p) then StatError
      else case disk w p of
             None \<Rightarrow> StatNotExist
           | Some (RegularFile c t) \<Rightarrow> StatOk (int (length c)) t
           | Some Directory \<Rightarrow> StatOk 0 0)"

definition os_MkdirAll :: "string \<Rightarrow> world \<Rightarrow> go_error option \<times> world" where
  "os_MkdirAll p w =
     (if fault w (MkdirAll p) then (Some (os_error (MkdirAll p)), w)
      else (None, log (Sys (MkdirAll p))
                    (w\<lparr>disk := (\<lambda>q. if q \<in> set (p # ancestors p) \<and> disk w q = None
                                      then Some Directory else disk w q)\<rparr>)))"

text \<open>\<open>os.OpenFile(p, O_WRONLY|O_CREATE)\<close>: an existing file is opened as it is.\<close>

definition os_OpenFile_CREATE :: "string \<Rightarrow> world \<Rightarrow> go_error option \<times> world" where
  "os_OpenFile_CREATE p w =
     (if fault w (OpenFile p) then (Some (os_error (OpenFile p)), w)
      else case disk w p of
             None \<Rightarrow> (None, log (Sys (OpenFile p)) (w\<lparr>disk := (disk w)(p \<mapsto> RegularFile [] (clock w))\<rparr>))
           | Some (RegularFile c t) \<Rightarrow> (None, w)
           | Some Directory \<Rightarrow> (Some (os_error (OpenFile p)), w))"

text \<open>Opening an existing regular file (\<open>O_RDONLY\<close>, or \<open>O_RDWR|O_APPEND\<close>) and reading it.\<close>

definition os_OpenFile :: "world \<Rightarrow> string \<Rightarrow> go_error + bytes" where
  "os_OpenFile w p =
     (if fault w (OpenFile p) then Inl (os_error (OpenFile p))
      else case disk w p of
             Some (RegularFile c t) \<Rightarrow> Inr c
           | _ \<Rightarrow> Inl (os_error (OpenFile p)))"

text \<open>
  A write through a handle opened without \<open>O_APPEND\<close> and not yet written to starts at
  offset 0 and leaves the bytes beyond the written ones in place; with \<open>O_APPEND\<close> the
  bytes go to the end of the file.
\<close>

definition file_Write_at0 :: "string \<Rightarrow> bytes \<Rightarrow> world \<Rightarrow> go_error option \<times> world" where
  "file_Write_at0 p b w =
     (if fault w (Write p) then (Some (os_error (Write p)), w)
      else case disk w p of
             Some (RegularFile c t) \<Rightarrow>
               (None, log (Sys (Write p))
                        (w\<lparr>disk := (disk w)(p \<mapsto> RegularFile (b @ drop (length b) c) (clock w))\<rparr>))
           | _ \<Rightarrow> (Some (os_error (Write p)), w))"

definition file_Write_APPEND :: "string \<Rightarrow> bytes \<Rightarrow> world \<Rightarrow> go_error option \<times> world" where
  "file_Write_APPEND p b w =
     (if fault w (Write p) then (Some (os_error (Write p)), w)
      else case disk w p of
             Some (RegularFile c t) \<Rightarrow>
               (None, log (Sys (Write p))
                        (w\<lparr>disk := (disk w)(p \<mapsto> RegularFile (c @ b) (clock w))\<rparr>))
           | _ \<Rightarrow> (Some (os_error (Write p)), w))"

text \<open>
  \<open>os.Remove\<close> deletes a file or an empty directory and fails on a missing path (that a
  directory is not empty is a fault of the call).
\<close>

definition os_Remove :: "string \<Rightarrow> world \<Rightarrow> go_error option \<times> world" where
  "os_Remove p w =
     (if fault w (Remove p) then (Some (os_error (Remove p)), w)
      else case disk w p of
             None \<Rightarrow> (Some (os_error (Remove p)), w)
           | Some n \<Rightarrow> (None, log (Sys (Remove p)) (w\<lparr>disk := (disk w)(p := None)\<rparr>)))"

text \<open>\<open>os.RemoveAll\<close> deletes the path and everything below it; a missing path is no error.\<close>

definition os_RemoveAll :: "string \<Rightarrow> world \<Rightarrow> go_error option \<times> world" where
  "os_RemoveAll p w =
     (if fault w (RemoveAll p) then (Some (os_error (RemoveAll p)), w)
      else (None, log (Sys (RemoveAll p))
                    (w\<lparr>disk := (\<lambda>q. if q = p \<or> prefix (p @ ''/'') q then None else disk w q)\<rparr>)))"

text \<open>
  The atomic file: \<open>atomic.FileCreate\<close> opens a temporary file, \<open>Close\<close> renames it onto
  the path, \<open>CloseAndPurge\<close> deletes it.  The rename fails on a directory.  The source
  discards the results of \<open>Close\<close> and \<open>CloseAndPurge\<close>, so these return the world only.
  \<open>io.Copy\<close> issues no write for an empty buffer.
\<close>

definition atomic_FileCreate :: "string \<Rightarrow> world \<Rightarrow> go_error option \<times> world" where
  "atomic_FileCreate p w =
     (if fault w (FileCreate p) then (Some (os_error (FileCreate p)), w)
      else (None, log (Sys (FileCreate p)) (w\<lparr>tmpfiles := (tmpfiles w)(p \<mapsto> [])\<rparr>)))"

definition atomic_Write :: "string \<Rightarrow> bytes \<Rightarrow> world \<Rightarrow> go_error option \<times> world" where
  "atomic_Write p b w =
     (if b = [] then (None, w)
      else if fault w (Write p) then (Some (os_error (Write p)), w)
      else case tmpfiles w p of
             None \<Rightarrow> (Some (os_error (Write p)), w)
           | Some c \<Rightarrow> (None, w\<lparr>tmpfiles := (tmpfiles w)(p \<mapsto> c @ b)\<rparr>))"

definition atomic_CloseAndPurge :: "string \<Rightarrow> world \<Rightarrow> world" where
  "atomic_CloseAndPurge p w = log (Sys (CloseAndPurge p)) (w\<lparr>tmpfiles := (tmpfiles w)(p := None)\<rparr>)"

definition atomic_Close :: "string \<Rightarrow> world \<Rightarrow> world" where
  "atomic_Close p w =
     log (Sys (Close p))
       (case tmpfiles w p of
          None \<Rightarrow> w
        | Some c \<Rightarrow>
            if fault w (Close p) \<or> disk w p = Some Directory then w
            else w\<lparr>disk := (disk w)(p \<mapsto> RegularFile c (clock w)),
                    tmpfiles := (tmpfiles w)(p := None)\<rparr>)"

text \<open>
  Modelled from the spec: \<open>SaveMultipartsSession\<close> is defined in another file of the
  package.  Spec 4.5 and 6: the entire session map is written to the configuration file.
\<close>

definition SaveMultipartsSession :: "world \<Rightarrow> probe_Error option \<times> world" where
  "SaveMultipartsSession w =
     (if fault w Save then (Some (NewError (Some (os_error Save))), w)
      else (None, log (Sys Save) (w\<lparr>config := ActiveSession w\<rparr>)))"


text \<open>
  Modelled from the spec: \<open>isMD5SumEqual\<close> is defined in another file of the package.
  Spec 4.6 step 5: the expected and the computed hex MD5 are compared case-insensitively,
  and a difference is an error.
\<close>

definition toLower :: "char \<Rightarrow> char" where
  "toLower c =
     (case map_of (zip ''ABCDEFGHIJKLMNOPQRSTUVWXYZ'' ''abcdefghijklmnopqrstuvwxyz'') c of
        None \<Rightarrow> c
      | Some l \<Rightarrow> l)"

definition isMD5SumEqual :: "string \<Rightarrow> string \<Rightarrow> bool" where
  "isMD5SumEqual expectedMD5Sum actualMD5Sum =
     (map toLower expectedMD5Sum = map toLower actualMD5Sum)"

text \<open>
  \<open>io.CopyN(dst, src, n)\<close>: the bytes copied and the error.  Fewer than \<open>n\<close> bytes before
  the end of the stream is \<open>io.EOF\<close>; \<open>n \<le> 0\<close> copies nothing and succeeds.
\<close>

definition io_CopyN :: "Reader \<Rightarrow> int \<Rightarrow> bytes \<times> go_error option" where
  "io_CopyN src n =
     (take (nat n) (fst src),
      if n \<le> int (length (fst src)) then None
      else case snd src of None \<Rightarrow> Some io_EOF | Some e \<Rightarrow> Some e)"

text \<open>\<open>sort.Sort\<close> by part number and by object key (the order among equal keys, which Go leaves open, is the stable one).\<close>

definition sort_partNumber :: "PartMetadata list \<Rightarrow> PartMetadata list" where
  "sort_partNumber ps = sort_key pm_PartNumber ps"

text \<open>
  Modelled from the spec: \<open>byUploadMetadataKey\<close> is declared in another file of the
  package.  Spec 4.8: results are sorted by object key ascending.
\<close>

definition sort_byUploadMetadataKey :: "UploadMetadata list \<Rightarrow> UploadMetadata list" where
  "sort_byUploadMetadataKey us = sort_key um_Object us"

subsection \<open>isValidUploadID\<close>

definition isValidUploadID :: "world \<Rightarrow> string \<Rightarrow> string \<Rightarrow> bool" where
  "isValidUploadID w object uploadID =
     (case ActiveSession w object of
        None \<Rightarrow> False
      | Some s \<Rightarrow> uploadID = ms_UploadID s)"

subsection \<open>ListMultipartUploads\<close>

text \<open>
  The \<open>range\<close> over the Go map visits the keys in an order the language leaves open; the
  order is the argument \<open>keys\<close>, an enumeration of the keys of the map.
\<close>

definition newUpload :: "string \<Rightarrow> MultipartSession \<Rightarrow> UploadMetadata" where
  "newUpload object session =
     \<lparr>um_Object = object, um_UploadID = ms_UploadID session, um_Initiated = ms_Initiated session\<rparr>"

fun ListMultipartUploads_range ::
  "(string \<rightharpoonup> MultipartSession) \<Rightarrow> string list \<Rightarrow> BucketMultipartResourcesMetadata \<Rightarrow>
   UploadMetadata list \<Rightarrow> BucketMultipartResourcesMetadata" where
  "ListMultipartUploads_range m [] resources uploads =
     resources\<lparr>bmr_Upload := sort_byUploadMetadataKey uploads\<rparr>"
| "ListMultipartUploads_range m (object # keys) resources uploads =
     (case m object of
        None \<Rightarrow> ListMultipartUploads_range m keys resources uploads
      | Some session \<Rightarrow>
          if strings_HasPrefix object (bmr_Prefix resources) then
            if int (length uploads) > bmr_MaxUploads resources then
              resources\<lparr>bmr_Upload := sort_byUploadMetadataKey uploads,
                         bmr_NextKeyMarker := object,
                         bmr_NextUploadIDMarker := ms_UploadID session,
                         bmr_IsTruncated := True\<rparr>
            else if bmr_KeyMarker resources \<noteq> [] \<and> bmr_UploadIDMarker resources = [] then
              (if object > bmr_KeyMarker resources
               then ListMultipartUploads_range m keys resources (uploads @ [newUpload object session])
               else ListMultipartUploads_range m keys resources uploads)
            else if bmr_KeyMarker resources \<noteq> [] \<and> bmr_UploadIDMarker resources \<noteq> [] then
              (if ms_UploadID session > bmr_UploadIDMarker resources
               then (if object \<ge> bmr_KeyMarker resources
                     then ListMultipartUploads_range m keys resources (uploads @ [newUpload object session])
                     else ListMultipartUploads_range m keys resources uploads)
               else ListMultipartUploads_range m keys resources uploads)
            else ListMultipartUploads_range m keys resources (uploads @ [newUpload object session])
          else ListMultipartUploads_range m keys resources uploads)"

definition ListMultipartUploads ::
  "externals \<Rightarrow> string list \<Rightarrow> string \<Rightarrow> BucketMultipartResourcesMetadata \<Rightarrow> world \<Rightarrow>
   BucketMultipartResourcesMetadata result" where
  "ListMultipartUploads ext keys bucket resources w =
     (if \<not> IsValidBucket ext bucket then Fail (NewError (Some (BucketNameInvalid bucket)))
      else case os_Stat w (filepath_Join (path w) bucket) of
             StatNotExist \<Rightarrow> Fail (NewError (Some (BucketNotFound bucket)))
           | StatError \<Rightarrow> Fail (NewError (Some InternalError))
           | StatOk sz t \<Rightarrow> Return (ListMultipartUploads_range (ActiveSession w) keys resources []))"

subsection \<open>concatParts\<close>

text \<open>
  The multi-writer \<open>mw\<close> feeds the temporary file of the object and the MD5 hasher; \<open>h\<close>
  is the input the hasher has received so far.
\<close>

fun concatParts ::
  "externals \<Rightarrow> CompletePart list \<Rightarrow> string \<Rightarrow> bytes \<Rightarrow> world \<Rightarrow>
   probe_Error option \<times> bytes \<times> world" where
  "concatParts ext [] objectPath h w = (None, h, w)"
| "concatParts ext (part # parts) objectPath h w =
     (let recvMD5 = cp_ETag part; pp = partPath objectPath (cp_PartNumber part) in
      case os_OpenFile w pp of
        Inl err \<Rightarrow> (Some (NewError (Some err)), h, w)
      | Inr obj \<Rightarrow>
          (if fault w (ReadAll pp) then (Some (NewError (Some (os_error (ReadAll pp)))), h, w)
           else
             (case hex_DecodeString (strings_Trim recvMD5 [CHR 0x22]) of
                None \<Rightarrow> (Some (NewError (Some (InvalidDigest recvMD5))), h, w)
              | Some recvMD5Bytes \<Rightarrow>
                  (if recvMD5Bytes \<noteq> md5_Sum ext obj
                   then (Some (NewError (Some (BadDigest recvMD5 [] []))), h, w)
                   else
                     (case atomic_Write objectPath obj w of
                        (Some err, w') \<Rightarrow> (Some (NewError (Some err)), h, w')
                      | (None, w') \<Rightarrow> concatParts ext parts objectPath (h @ obj) w')))))"

subsection \<open>NewMultipartUpload\<close>

text \<open>\<open>rnd\<close> is the value \<open>rand.Int63()\<close> yields in this call.\<close>

definition newUploadID :: "externals \<Rightarrow> int \<Rightarrow> string \<Rightarrow> string \<Rightarrow> world \<Rightarrow> string" where
  "newUploadID ext rnd bucket object w =
     take 47 (base64_URLEncoding_EncodeToString ext
                (sha512_Sum512 ext (itoa rnd @ bucket @ object @ time_String ext (clock w))))"

definition NewMultipartUpload ::
  "externals \<Rightarrow> int \<Rightarrow> string \<Rightarrow> string \<Rightarrow> world \<Rightarrow> string result \<times> world" where
  "NewMultipartUpload ext rnd bucket object w =
     (if fault w DiskStat then (Fail (NewError (Some (os_error DiskStat))), w)
      else if availableDiskSpace w \<le> minFreeDisk w
      then (Fail (NewError (Some (RootPathFull (path w)))), w)
      else if \<not> IsValidBucket ext bucket
      then (Fail (NewError (Some (BucketNameInvalid bucket))), w)
      else if \<not> IsValidObjectName ext object
      then (Fail (NewError (Some (ObjectNameInvalid [] object))), w)
      else
        let bucketPath = filepath_Join (path w) bucket in
        case os_Stat w bucketPath of
          StatNotExist \<Rightarrow> (Fail (NewError (Some (BucketNotFound bucket))), w)
        | StatError \<Rightarrow> (Fail (NewError (Some InternalError)), w)
        | StatOk sz t \<Rightarrow>
            (let objectPath = filepath_Join bucketPath object;
                 objectDir = filepath_Dir objectPath in
             case (if os_Stat w objectDir = StatNotExist then os_MkdirAll objectDir w
                   else (None, w)) of
               (Some err, w1) \<Rightarrow> (Fail (NewError (Some err)), w1)
             | (None, w1) \<Rightarrow>
                 (let uploadID = newUploadID ext rnd bucket object w in
                  case os_OpenFile_CREATE (journalPath objectPath) w1 of
                    (Some err, w2) \<Rightarrow> (Fail (NewError (Some err)), w2)
                  | (None, w2) \<Rightarrow>
                      (let mpartSession =
                             \<lparr>ms_UploadID = uploadID, ms_Initiated = clock w,
                              ms_TotalParts = 0, ms_Parts = []\<rparr>;
                           w3 = log (MapStore object)
                                  (w2\<lparr>ActiveSession := (ActiveSession w2)(object \<mapsto> mpartSession)\<rparr>)
                       in
                       case file_Write_at0 (journalPath objectPath)
                              (json_Encode ext mpartSession) w3 of
                         (Some err, w4) \<Rightarrow> (Fail (NewError (Some err)), w4)
                       | (None, w4) \<Rightarrow>
                           (case SaveMultipartsSession w4 of
                              (Some err, w5) \<Rightarrow> (Fail err, w5)
                            | (None, w5) \<Rightarrow> (Return uploadID, w5))))))"

subsection \<open>CreateObjectPart\<close>

text \<open>
  The map entry is the address of the decoded descriptor, whose \<open>Parts\<close> slice is sorted
  in place before the descriptor is encoded: the map holds the sorted descriptor.
\<close>

definition CreateObjectPart ::
  "externals \<Rightarrow> string \<Rightarrow> string \<Rightarrow> string \<Rightarrow> string \<Rightarrow> int \<Rightarrow> int \<Rightarrow> Reader \<Rightarrow>
   Signature option \<Rightarrow> world \<Rightarrow> string result \<times> world" where
  "CreateObjectPart ext bucket object uploadID expectedMD5Sum partID size' data signature w =
     (if fault w DiskStat then (Fail (NewError (Some (os_error DiskStat))), w)
      else if availableDiskSpace w \<le> minFreeDisk w
      then (Fail (NewError (Some (RootPathFull (path w)))), w)
      else if partID \<le> 0
      then (Fail (NewError (Some (errors_New
              ''invalid part id, cannot be zero or less than zero''))), w)
      else if \<not> IsValidBucket ext bucket
      then (Fail (NewError (Some (BucketNameInvalid bucket))), w)
      else if \<not> IsValidObjectName ext object
      then (Fail (NewError (Some (ObjectNameInvalid bucket object))), w)
      else if \<not> isValidUploadID w object uploadID
      then (Fail (NewError (Some (InvalidUploadID uploadID))), w)
      else
        case (if strings_TrimSpace expectedMD5Sum \<noteq> []
              then map_option hex_EncodeToString
                     (base64_StdEncoding_DecodeString ext (strings_TrimSpace expectedMD5Sum))
              else Some expectedMD5Sum) of
          None \<Rightarrow> (Fail (NewError (Some (InvalidDigest expectedMD5Sum))), w)
        | Some expectedMD5Sum' \<Rightarrow>
            (let bucketPath = filepath_Join (path w) bucket in
             case os_Stat w bucketPath of
               StatNotExist \<Rightarrow> (Fail (NewError (Some (BucketNotFound bucket))), w)
             | StatError \<Rightarrow> (Fail (NewError (Some InternalError)), w)
             | StatOk bsz bt \<Rightarrow>
                 (let objectPath = filepath_Join bucketPath object;
                      pp = partPath objectPath partID in
                  case atomic_FileCreate pp w of
                    (Some err, w1) \<Rightarrow> (Fail (NewError (Some err)), w1)
                  | (None, w1) \<Rightarrow>
                      (let (written, rerr) = io_CopyN data size';
                           (werr, w2) = atomic_Write pp written w1 in
                       case (if werr \<noteq> None then werr else rerr) of
                         Some err \<Rightarrow> (Fail (NewError (Some err)), atomic_CloseAndPurge pp w2)
                       | None \<Rightarrow>
                           (let md5sum = hex_EncodeToString (md5_Sum ext written) in
                            if strings_TrimSpace expectedMD5Sum' \<noteq> [] \<and>
                               \<not> isMD5SumEqual (strings_TrimSpace expectedMD5Sum') md5sum
                            then (Fail (NewError (Some (BadDigest expectedMD5Sum' bucket object))),
                                  atomic_CloseAndPurge pp w2)
                            else
                              (case (case signature of
                                       None \<Rightarrow> None
                                     | Some sig \<Rightarrow>
                                         (case sig (hex_EncodeToString (sha256_Sum ext written)) of
                                            (ok, Some perr) \<Rightarrow> Some perr
                                          | (ok, None) \<Rightarrow>
                                              if \<not> ok
                                              then Some (NewError (Some SignatureDoesNotMatch))
                                              else None)) of
                                 Some perr \<Rightarrow> (Fail perr, atomic_CloseAndPurge pp w2)
                               | None \<Rightarrow>
                                   (let w3 = atomic_Close pp w2 in
                                    case os_Stat w3 pp of
                                      StatNotExist \<Rightarrow> (Fail (NewError (Some (os_error (Stat pp)))), w3)
                                    | StatError \<Rightarrow> (Fail (NewError (Some (os_error (Stat pp)))), w3)
                                    | StatOk fsz ft \<Rightarrow>
                                        (let partMetadata =
                                               \<lparr>pm_PartNumber = partID, pm_LastModified = ft,
                                                pm_ETag = md5sum, pm_Size = fsz\<rparr>;
                                             jp = journalPath objectPath in
                                         case os_OpenFile w3 jp of
                                           Inl err \<Rightarrow> (Fail (NewError (Some err)), w3)
                                         | Inr journal \<Rightarrow>
                                             (case json_Decode ext journal of
                                                None \<Rightarrow> (Fail (NewError (Some json_SyntaxError)), w3)
                                              | Some d \<Rightarrow>
                                                  (let deserializedMultipartSession =
                                                         d\<lparr>ms_Parts := sort_partNumber
                                                                          (ms_Parts d @ [partMetadata]),
                                                           ms_TotalParts := ms_TotalParts d + 1\<rparr>;
                                                       w4 = log (MapStore object)
                                                              (w3\<lparr>ActiveSession := (ActiveSession w3)
                                                                    (object \<mapsto> deserializedMultipartSession)\<rparr>)
                                                   in
                                                   case file_Write_APPEND jp
                                                          (json_Encode ext deserializedMultipartSession) w4 of
                                                     (Some err, w5) \<Rightarrow> (Fail (NewError (Some err)), w5)
                                                   | (None, w5) \<Rightarrow> (Return (pm_ETag partMetadata), w5)))))))))))"

subsection \<open>CompleteMultipartUpload\<close>

fun CompleteMultipartUpload_remove ::
  "CompletePart list \<Rightarrow> string \<Rightarrow> world \<Rightarrow> go_error option \<times> world" where
  "CompleteMultipartUpload_remove [] objectPath w = (None, w)"
| "CompleteMultipartUpload_remove (part # parts) objectPath w =
     (case os_Remove (partPath objectPath (cp_PartNumber part)) w of
        (Some err, w') \<Rightarrow> (Some err, w')
      | (None, w') \<Rightarrow> CompleteMultipartUpload_remove parts objectPath w')"

definition CompleteMultipartUpload ::
  "externals \<Rightarrow> string \<Rightarrow> string \<Rightarrow> string \<Rightarrow> Reader \<Rightarrow> Signature option \<Rightarrow> world \<Rightarrow>
   ObjectMetadata result \<times> world" where
  "CompleteMultipartUpload ext bucket object uploadID data signature w =
     (if \<not> IsValidBucket ext bucket
      then (Fail (NewError (Some (BucketNameInvalid bucket))), w)
      else if \<not> IsValidObjectName ext object
      then (Fail (NewError (Some (ObjectNameInvalid bucket object))), w)
      else if \<not> isValidUploadID w object uploadID
      then (Fail (NewError (Some (InvalidUploadID uploadID))), w)
      else
        let bucketPath = filepath_Join (path w) bucket in
        case os_Stat w bucketPath of
          StatNotExist \<Rightarrow> (Fail (NewError (Some (BucketNotFound bucket))), w)
        | StatError \<Rightarrow> (Fail (NewError (Some InternalError)), w)
        | StatOk bsz bt \<Rightarrow>
            (let objectPath = filepath_Join bucketPath object in
             case atomic_FileCreate objectPath w of
               (Some err, w1) \<Rightarrow> (Fail (NewError (Some err)), w1)
             | (None, w1) \<Rightarrow>
                 (case snd data of
                    Some err \<Rightarrow> (Fail (NewError (Some err)), atomic_CloseAndPurge objectPath w1)
                  | None \<Rightarrow>
                      (let partBytes = fst data; err = (None :: go_error option) in
                       case (case signature of
                               None \<Rightarrow> None
                             | Some sig \<Rightarrow>
                                 (case sig (hex_EncodeToString (sha256_Sum ext partBytes)) of
                                    (ok, Some perr) \<Rightarrow> Some (NewError err)
                                  | (ok, None) \<Rightarrow>
                                      if \<not> ok then Some (NewError (Some SignatureDoesNotMatch))
                                      else None)) of
                         Some e \<Rightarrow> (Fail e, atomic_CloseAndPurge objectPath w1)
                       | None \<Rightarrow>
                           (case xml_Unmarshal ext partBytes of
                              None \<Rightarrow> (Fail (NewError (Some MalformedXML)),
                                       atomic_CloseAndPurge objectPath w1)
                            | Some parts \<Rightarrow>
                                (if \<not> completedParts_IsSorted ext parts
                                 then (Fail (NewError (Some InvalidPartOrder)),
                                       atomic_CloseAndPurge objectPath w1)
                                 else
                                   (case concatParts ext parts objectPath [] w1 of
                                      (Some e, h, w2) \<Rightarrow> (Fail e, atomic_CloseAndPurge objectPath w2)
                                    | (None, h, w2) \<Rightarrow>
                                        (let w3 = log (MapDelete object)
                                                    (w2\<lparr>ActiveSession := (ActiveSession w2)(object := None)\<rparr>)
                                         in
                                         case CompleteMultipartUpload_remove parts objectPath w3 of
                                           (Some e, w4) \<Rightarrow>
                                             (Fail (NewError (Some e)), atomic_CloseAndPurge objectPath w4)
                                         | (None, w4) \<Rightarrow>
                                             (case os_Remove (journalPath objectPath) w4 of
                                                (Some e, w5) \<Rightarrow>
                                                  (Fail (NewError (Some e)),
                                                   atomic_CloseAndPurge objectPath w5)
                                              | (None, w5) \<Rightarrow>
                                                  (case SaveMultipartsSession w5 of
                                                     (Some e, w6) \<Rightarrow>
                                                       (Fail e, atomic_CloseAndPurge objectPath w6)
                                                   | (None, w6) \<Rightarrow>
                                                       (let w7 = atomic_Close objectPath w6 in
                                                        case os_Stat w7 objectPath of
                                                          StatNotExist \<Rightarrow>
                                                            (Fail (NewError (Some (os_error (Stat objectPath)))), w7)
                                                        | StatError \<Rightarrow>
                                                            (Fail (NewError (Some (os_error (Stat objectPath)))), w7)
                                                        | StatOk sz t \<Rightarrow>
                                                            (Return \<lparr>om_Bucket = bucket, om_Object = object,
                                                                     om_ContentType = ''application/octet-stream'',
                                                                     om_Created = t,
                                                                     om_Md5 = hex_EncodeToString (md5_Sum ext h),
                                                                     om_Size = sz\<rparr>, w7))))))))))))"

subsection \<open>ListObjectParts\<close>

text \<open>
  The loop \<open>for i := startPartNumber; i <= TotalParts; i++\<close>.  An index outside the
  slice is a run-time panic.
\<close>

function ListObjectParts_loop ::
  "MultipartSession \<Rightarrow> ObjectResourcesMetadata \<Rightarrow> int \<Rightarrow> PartMetadata list \<Rightarrow>
   ObjectResourcesMetadata result" where
  "ListObjectParts_loop d resources i parts =
     (if i \<le> ms_TotalParts d then
        (if int (length parts) > orm_MaxParts resources
         then Return (resources\<lparr>orm_IsTruncated := True,
                                 orm_Part := sort_partNumber parts,
                                 orm_NextPartNumberMarker := i\<rparr>)
         else if 0 \<le> i - 1 \<and> i - 1 < int (length (ms_Parts d))
         then ListObjectParts_loop d resources (i + 1) (parts @ [ms_Parts d ! nat (i - 1)])
         else Panic)
      else Return (resources\<lparr>orm_Part := sort_partNumber parts\<rparr>))"
  by pat_completeness auto
termination
  by (relation "measure (\<lambda>(d, resources, i, parts). nat (ms_TotalParts d + 1 - i))") auto

declare ListObjectParts_loop.simps [simp del]

definition ListObjectParts ::
  "externals \<Rightarrow> string \<Rightarrow> string \<Rightarrow> ObjectResourcesMetadata \<Rightarrow> world \<Rightarrow>
   ObjectResourcesMetadata result" where
  "ListObjectParts ext bucket object resources w =
     (if \<not> IsValidBucket ext bucket then Fail (NewError (Some (BucketNameInvalid bucket)))
      else if \<not> IsValidObjectName ext object
      then Fail (NewError (Some (ObjectNameInvalid bucket object)))
      else if \<not> isValidUploadID w object (orm_UploadID resources)
      then Fail (NewError (Some (InvalidUploadID (orm_UploadID resources))))
      else
        let objectResourcesMetadata = resources\<lparr>orm_Bucket := bucket, orm_Object := object\<rparr>;
            startPartNumber =
              (if orm_PartNumberMarker objectResourcesMetadata = 0 then 1
               else orm_PartNumberMarker objectResourcesMetadata);
            bucketPath = filepath_Join (path w) bucket in
        case os_Stat w bucketPath of
          StatNotExist \<Rightarrow> Fail (NewError (Some (BucketNotFound bucket)))
        | StatError \<Rightarrow> Fail (NewError (Some InternalError))
        | StatOk bsz bt \<Rightarrow>
            (let objectPath = filepath_Join bucketPath object in
             case os_OpenFile w (journalPath objectPath) of
               Inl err \<Rightarrow> Fail (NewError (Some err))
             | Inr journal \<Rightarrow>
                 (case json_Decode ext journal of
                    None \<Rightarrow> Fail (NewError (Some json_SyntaxError))
                  | Some deserializedMultipartSession \<Rightarrow>
                      ListObjectParts_loop deserializedMultipartSession
                        objectResourcesMetadata startPartNumber [])))"

subsection \<open>AbortMultipartUpload\<close>

fun AbortMultipartUpload_remove ::
  "PartMetadata list \<Rightarrow> string \<Rightarrow> world \<Rightarrow> go_error option \<times> world" where
  "AbortMultipartUpload_remove [] objectPath w = (None, w)"
| "AbortMultipartUpload_remove (part # parts) objectPath w =
     (case os_RemoveAll (partPath objectPath (pm_PartNumber part)) w of
        (Some err, w') \<Rightarrow> (Some err, w')
      | (None, w') \<Rightarrow> AbortMultipartUpload_remove parts objectPath w')"

definition AbortMultipartUpload ::
  "externals \<Rightarrow> string \<Rightarrow> string \<Rightarrow> string \<Rightarrow> world \<Rightarrow> unit result \<times> world" where
  "AbortMultipartUpload ext bucket object uploadID w =
     (if \<not> IsValidBucket ext bucket
      then (Fail (NewError (Some (BucketNameInvalid bucket))), w)
      else if \<not> IsValidObjectName ext object
      then (Fail (NewError (Some (ObjectNameInvalid bucket object))), w)
      else if \<not> isValidUploadID w object uploadID
      then (Fail (NewError (Some (InvalidUploadID uploadID))), w)
      else
        let bucketPath = filepath_Join (path w) bucket in
        case os_Stat w bucketPath of
          StatNotExist \<Rightarrow> (Fail (NewError (Some (BucketNotFound bucket))), w)
        | StatError \<Rightarrow> (Fail (NewError (Some InternalError)), w)
        | StatOk bsz bt \<Rightarrow>
            (let objectPath = filepath_Join bucketPath object in
             case AbortMultipartUpload_remove
                    (case ActiveSession w object of None \<Rightarrow> [] | Some s \<Rightarrow> ms_Parts s)
                    objectPath w of
               (Some err, w1) \<Rightarrow> (Fail (NewError (Some err)), w1)
             | (None, w1) \<Rightarrow>
                 (let w2 = log (MapDelete object)
                             (w1\<lparr>ActiveSession := (ActiveSession w1)(object := None)\<rparr>)
                  in
                  case os_RemoveAll (journalPath objectPath) w2 of
                    (Some err, w3) \<Rightarrow> (Fail (NewError (Some err)), w3)
                  | (None, w3) \<Rightarrow> (Return (), w3))))"

subsection \<open>Reading the disk\<close>

text \<open>
  The path \<open>filepath.Join(filepath.Join(fs.path, bucket), object)\<close> of an object, the
  content of the regular file at a path, and the concatenation of the part files a manifest
  names, in the order of the manifest.
\<close>

definition objectPath_of :: "world \<Rightarrow> string \<Rightarrow> string \<Rightarrow> string" where
  "objectPath_of w bucket object = filepath_Join (filepath_Join (path w) bucket) object"

definition file_content :: "world \<Rightarrow> string \<Rightarrow> bytes" where
  "file_content w p = (case disk w p of Some (RegularFile c t) \<Rightarrow> c | _ \<Rightarrow> [])"

definition parts_content :: "world \<Rightarrow> string \<Rightarrow> CompletePart list \<Rightarrow> bytes" where
  "parts_content w objectPath parts =
     concat (map (\<lambda>part. file_content w (partPath objectPath (cp_PartNumber part))) parts)"

subsection \<open>The order check of the commit manifest\<close>

text \<open>
  Modelled from the spec: the type \<open>completedParts\<close>, whose \<open>Less\<close> decides
  \<open>sort.IsSorted(completedParts(parts.Part))\<close>, is declared in another file of the
  package.  Spec 4.7 step 6 and spec 7 (\<open>InvalidPartOrder\<close>): the check passes exactly
  when the part numbers of the manifest are strictly ascending.
\<close>

definition IsSorted_completedParts :: "CompletePart list \<Rightarrow> bool" where
  "IsSorted_completedParts parts = sorted_wrt (<) (map cp_PartNumber parts)"

subsection \<open>A concrete instance\<close>

text \<open>
  An instance of the parameters on which the operations can be run.  The session codec
  writes numbers in unary and strings with their length in front; a decoder reads one
  document from the front of a stream and ignores what follows it, as the JSON decoder
  does.  The digests are prefixes of their input, the base64 decoder accepts every string
  without an exclamation mark as its own decoding, and three manifests are known to the
  manifest parser.
\<close>

definition enc_nat :: "nat \<Rightarrow> string" where
  "enc_nat n = replicate n (CHR ''1'') @ ''0''"

definition dec_nat :: "string \<Rightarrow> (nat \<times> string) option" where
  "dec_nat s =
     (case dropWhile (\<lambda>c. c = CHR ''1'') s of
        [] \<Rightarrow> None
      | c # r \<Rightarrow> Some (length (takeWhile (\<lambda>c. c = CHR ''1'') s), r))"

definition enc_int :: "int \<Rightarrow> string" where
  "enc_int i = (if i < 0 then CHR ''-'' else CHR ''+'') # enc_nat (nat \<bar>i\<bar>)"

definition dec_int :: "string \<Rightarrow> (int \<times> string) option" where
  "dec_int s =
     (case s of
        [] \<Rightarrow> None
      | c # r \<Rightarrow>
          (case dec_nat r of
             None \<Rightarrow> None
           | Some (n, r') \<Rightarrow> Some (if c = CHR ''-'' then - int n else int n, r')))"

definition enc_str :: "string \<Rightarrow> string" where
  "enc_str s = enc_nat (length s) @ s"

definition dec_str :: "string \<Rightarrow> (string \<times> string) option" where
  "dec_str s =
     (case dec_nat s of
        None \<Rightarrow> None
      | Some (n, r) \<Rightarrow> if n \<le> length r then Some (take n r, drop n r) else None)"

definition enc_part :: "PartMetadata \<Rightarrow> string" where
  "enc_part p =
     enc_int (pm_PartNumber p) @ enc_int (pm_LastModified p) @ enc_str (pm_ETag p) @
     enc_int (pm_Size p)"

definition dec_part :: "string \<Rightarrow> (PartMetadata \<times> string) option" where
  "dec_part s =
     (case dec_int s of
        None \<Rightarrow> None
      | Some (n, r1) \<Rightarrow>
          (case dec_int r1 of
             None \<Rightarrow> None
           | Some (t, r2) \<Rightarrow>
               (case dec_str r2 of
                  None \<Rightarrow> None
                | Some (e, r3) \<Rightarrow>
                    (case dec_int r3 of
                       None \<Rightarrow> None
                     | Some (z, r4) \<Rightarrow>
                         Some (\<lparr>pm_PartNumber = n, pm_LastModified = t, pm_ETag = e,
                                pm_Size = z\<rparr>, r4)))))"

fun dec_parts :: "nat \<Rightarrow> string \<Rightarrow> (PartMetadata list \<times> string) option" where
  "dec_parts 0 s = Some ([], s)"
| "dec_parts (Suc n) s =
     (case dec_part s of
        None \<Rightarrow> None
      | Some (p, r) \<Rightarrow>
          (case dec_parts n r of
             None \<Rightarrow> None
           | Some (ps, r') \<Rightarrow> Some (p # ps, r')))"

definition enc_session :: "MultipartSession \<Rightarrow> bytes" where
  "enc_session d =
     enc_str (ms_UploadID d) @ enc_int (ms_Initiated d) @ enc_int (ms_TotalParts d) @
     enc_nat (length (ms_Parts d)) @ concat (map enc_part (ms_Parts d)) @ [CHR 0x0A]"

definition dec_session :: "bytes \<Rightarrow> MultipartSession option" where
  "dec_session s =
     (case dec_str s of
        None \<Rightarrow> None
      | Some (u, r1) \<Rightarrow>
          (case dec_int r1 of
             None \<Rightarrow> None
           | Some (i, r2) \<Rightarrow>
               (case dec_int r2 of
                  None \<Rightarrow> None
                | Some (t, r3) \<Rightarrow>
                    (case dec_nat r3 of
                       None \<Rightarrow> None
                     | Some (n, r4) \<Rightarrow>
                         (case dec_parts n r4 of
                            None \<Rightarrow> None
                          | Some (ps, r5) \<Rightarrow>
                              Some \<lparr>ms_UploadID = u, ms_Initiated = i, ms_TotalParts = t,
                                    ms_Parts = ps\<rparr>)))))"

definition ex_manifests :: "bytes \<rightharpoonup> CompletePart list" where
  "ex_manifests = map_of
     [(''m1'', [\<lparr>cp_PartNumber = 1, cp_ETag = ''6865''\<rparr>]),
      (''m12'', [\<lparr>cp_PartNumber = 1, cp_ETag = ''6865''\<rparr>,
                 \<lparr>cp_PartNumber = 2, cp_ETag = ''776f''\<rparr>]),
      (''m21'', [\<lparr>cp_PartNumber = 2, cp_ETag = ''776f''\<rparr>,
                 \<lparr>cp_PartNumber = 1, cp_ETag = ''6865''\<rparr>])]"

definition ex_ext :: externals where
  "ex_ext =
     \<lparr>IsValidBucket = (\<lambda>b. b \<noteq> []),
      IsValidObjectName = (\<lambda>ob. ob \<noteq> []),
      md5_Sum = take 2,
      sha256_Sum = take 3,
      sha512_Sum512 = take 4,
      base64_StdEncoding_DecodeString = (\<lambda>s. if CHR ''!'' \<in> set s then None else Some s),
      base64_URLEncoding_EncodeToString = (\<lambda>b. b),
      time_String = itoa,
      json_Encode = enc_session,
      json_Decode = dec_session,
      xml_Unmarshal = ex_manifests,
      completedParts_IsSorted = IsSorted_completedParts\<rparr>"

text \<open>
  The worlds of a run in bucket \<open>b\<close> under the root \<open>r\<close>: a session for object \<open>o\<close> is
  opened (\<open>ex_w1\<close>), part 1 with the bytes \<open>hello\<close> (\<open>ex_w2\<close>) and part 2 with the bytes
  \<open>world\<close> (\<open>ex_w3\<close>) are uploaded.  From \<open>ex_w2\<close> the upload is completed with the
  manifest naming part 1 (\<open>ex_w4\<close>), and a second session for \<open>o\<close> is opened (\<open>ex_w5\<close>).
\<close>

definition ex_w0 :: world where
  "ex_w0 =
     \<lparr>path = ''r'', minFreeDisk = 10, ActiveSession = Map.empty,
      disk = [''r/b'' \<mapsto> Directory], tmpfiles = Map.empty, config = Map.empty,
      availableDiskSpace = 50, clock = 0, fault = (\<lambda>c. False), trace = []\<rparr>"

definition ex_w1 :: world where
  "ex_w1 = snd (NewMultipartUpload ex_ext 7 ''b'' ''o'' ex_w0)"

definition ex_w2 :: world where
  "ex_w2 = snd (CreateObjectPart ex_ext ''b'' ''o'' ''7bo0'' [] 1 5 (''hello'', None) None ex_w1)"

definition ex_w3 :: world where
  "ex_w3 = snd (CreateObjectPart ex_ext ''b'' ''o'' ''7bo0'' [] 2 5 (''world'', None) None ex_w2)"

definition ex_w4 :: world where
  "ex_w4 = snd (CompleteMultipartUpload ex_ext ''b'' ''o'' ''7bo0'' (''m1'', None) None ex_w2)"

definition ex_w5 :: world where
  "ex_w5 = snd (NewMultipartUpload ex_ext 8 ''b'' ''o'' ex_w4)"

definition ex_d0 :: MultipartSession where
  "ex_d0 = \<lparr>ms_UploadID = ''7bo0'', ms_Initiated = 0, ms_TotalParts = 0, ms_Parts = []\<rparr>"

definition ex_p1 :: PartMetadata where
  "ex_p1 = \<lparr>pm_PartNumber = 1, pm_LastModified = 0, pm_ETag = ''6865'', pm_Size = 5\<rparr>"

definition ex_p2 :: PartMetadata where
  "ex_p2 = \<lparr>pm_PartNumber = 2, pm_LastModified = 0, pm_ETag = ''776f'', pm_Size = 5\<rparr>"

definition ex_resources :: "int \<Rightarrow> ObjectResourcesMetadata" where
  "ex_resources marker =
     \<lparr>orm_Bucket = [], orm_Object = [], orm_UploadID = ''7bo0'',
      orm_PartNumberMarker = marker, orm_NextPartNumberMarker = 0, orm_MaxParts = 1000,
      orm_IsTruncated = False, orm_Part = []\<rparr>"

text \<open>
  Five sessions, for the objects \<open>a\<close> to \<open>e\<close> of bucket \<open>b\<close>, and a listing request with
  empty markers, empty prefix and \<open>MaxUploads = 2\<close>.
\<close>

definition ex_ls :: world where
  "ex_ls = foldl (\<lambda>w k. snd (NewMultipartUpload ex_ext 1 ''b'' k w)) ex_w0
             [''a'', ''b'', ''c'', ''d'', ''e'']"

definition ex_bucket_resources :: BucketMultipartResourcesMetadata where
  "ex_bucket_resources =
     \<lparr>bmr_KeyMarker = [], bmr_UploadIDMarker = [], bmr_NextKeyMarker = [],
      bmr_NextUploadIDMarker = [], bmr_MaxUploads = 2, bmr_IsTruncated = False,
      bmr_Upload = [], bmr_Prefix = []\<rparr>"

text \<open>
  The metadata returned for the object completed from part 1, and a signature verifier
  that fails with an internal error.
\<close>

definition ex_meta :: ObjectMetadata where
  "ex_meta = \<lparr>om_Bucket = ''b'', om_Object = ''o'', om_ContentType = ''application/octet-stream'',
              om_Created = 0, om_Md5 = ''6865'', om_Size = 5\<rparr>"


text \<open>
  From \<open>ex_w3\<close> the upload is completed with the manifest naming the parts 1 and 2
  (\<open>ex_w6\<close>); \<open>ex_meta12\<close> is the metadata returned for that object.
\<close>

definition ex_meta12 :: ObjectMetadata where
  "ex_meta12 = \<lparr>om_Bucket = ''b'', om_Object = ''o'', om_ContentType = ''application/octet-stream'',
                om_Created = 0, om_Md5 = ''6865'', om_Size = 10\<rparr>"

definition ex_w6 :: world where
  "ex_w6 = snd (CompleteMultipartUpload ex_ext ''b'' ''o'' ''7bo0'' (''m12'', None) None ex_w3)"

section \<open>Properties\<close>

subsection \<open>The concrete instance\<close>

lemma dropWhile_ones: "dropWhile (\<lambda>c. c = CHR ''1'') (replicate n (CHR ''1'') @ CHR ''0'' # r) = CHR ''0'' # r"
  by (induction n) simp_all

lemma takeWhile_ones: "takeWhile (\<lambda>c. c = CHR ''1'') (replicate n (CHR ''1'') @ CHR ''0'' # r) = replicate n (CHR ''1'')"
  by (induction n) simp_all

lemma dec_nat_enc: "dec_nat (enc_nat n @ r) = Some (n, r)"
  by (simp add: dec_nat_def enc_nat_def dropWhile_ones takeWhile_ones)

lemma dec_int_enc: "dec_int (enc_int i @ r) = Some (i, r)"
  by (auto simp: dec_int_def enc_int_def dec_nat_enc)

lemma dec_str_enc: "dec_str (enc_str s @ r) = Some (s, r)"
  by (simp add: dec_str_def enc_str_def dec_nat_enc)

lemma dec_part_enc: "dec_part (enc_part p @ r) = Some (p, r)"
  by (simp add: dec_part_def enc_part_def dec_int_enc dec_str_enc)

lemma dec_parts_enc: "dec_parts (length ps) (concat (map enc_part ps) @ r) = Some (ps, r)"
  by (induction ps) (simp_all add: dec_part_enc)

lemma dec_session_enc: "dec_session (enc_session d @ r) = Some d"
  by (simp add: dec_session_def enc_session_def dec_int_enc dec_str_enc dec_nat_enc dec_parts_enc)

lemma dec_session_enc0: "dec_session (enc_session d) = Some d"
  using dec_session_enc [of d "[]"] by simp

lemmas ex_defs = ex_ext_def ex_w0_def ex_manifests_def IsSorted_completedParts_def
  dec_session_enc dec_session_enc0 ex_d0_def ex_p1_def ex_p2_def ex_resources_def

lemmas prim_defs = os_Stat_def os_MkdirAll_def os_OpenFile_CREATE_def os_OpenFile_def
  file_Write_at0_def file_Write_APPEND_def os_Remove_def os_RemoveAll_def
  atomic_FileCreate_def atomic_Write_def atomic_CloseAndPurge_def atomic_Close_def
  SaveMultipartsSession_def log_def

lemmas str_defs = strings_HasPrefix_def isSpace_def strings_TrimSpace_def strings_Trim_def
  hexdigit_def hex_EncodeToString_def fromHexChar_def digits10.simps itoa_def
  filepath_Join_def filepath_Dir_def ancestors_def partPath_def journalPath_def
  toLower_def isMD5SumEqual_def io_CopyN_def sort_partNumber_def sort_byUploadMetadataKey_def
  isValidUploadID_def newUploadID_def char_of_def bit_0 Let_def

lemma ex_new1:
  "NewMultipartUpload ex_ext 7 ''b'' ''o'' ex_w0 =
     (Return ''7bo0'',
      \<lparr>path = ''r'', minFreeDisk = 10, ActiveSession = [''o'' \<mapsto> ex_d0],
       disk = [''r/b'' \<mapsto> Directory, ''r/b/o$multiparts'' \<mapsto> RegularFile (enc_session ex_d0) 0],
       tmpfiles = Map.empty, config = [''o'' \<mapsto> ex_d0],
       availableDiskSpace = 50, clock = 0, fault = (\<lambda>c. False),
       trace = [Sys (OpenFile ''r/b/o$multiparts''), MapStore ''o'',
                Sys (Write ''r/b/o$multiparts''), Sys Save]\<rparr>)"
  by (simp add: NewMultipartUpload_def ex_defs prim_defs str_defs)

lemmas ex_w1_eq = ex_w1_def [unfolded ex_new1 snd_conv]

lemma ex_create1:
  "CreateObjectPart ex_ext ''b'' ''o'' ''7bo0'' [] 1 5 (''hello'', None) None ex_w1 =
     (Return ''6865'',
      \<lparr>path = ''r'', minFreeDisk = 10,
       ActiveSession = [''o'' \<mapsto> ex_d0\<lparr>ms_Parts := [ex_p1], ms_TotalParts := 1\<rparr>],
       disk = [''r/b'' \<mapsto> Directory,
               ''r/b/o$1'' \<mapsto> RegularFile ''hello'' 0,
               ''r/b/o$multiparts'' \<mapsto>
                 RegularFile (enc_session ex_d0 @
                              enc_session (ex_d0\<lparr>ms_Parts := [ex_p1], ms_TotalParts := 1\<rparr>)) 0],
       tmpfiles = Map.empty, config = [''o'' \<mapsto> ex_d0],
       availableDiskSpace = 50, clock = 0, fault = (\<lambda>c. False),
       trace = [Sys (OpenFile ''r/b/o$multiparts''), MapStore ''o'',
                Sys (Write ''r/b/o$multiparts''), Sys Save,
                Sys (FileCreate ''r/b/o$1''), Sys (Close ''r/b/o$1''), MapStore ''o'',
                Sys (Write ''r/b/o$multiparts'')]\<rparr>)"
  by (simp add: CreateObjectPart_def ex_w1_eq ex_defs prim_defs str_defs)

lemmas ex_w2_eq = ex_w2_def [unfolded ex_create1 snd_conv]

lemma ex_create2:
  "CreateObjectPart ex_ext ''b'' ''o'' ''7bo0'' [] 2 5 (''world'', None) None ex_w2 =
     (Return ''776f'',
      \<lparr>path = ''r'', minFreeDisk = 10,
       ActiveSession = [''o'' \<mapsto> ex_d0\<lparr>ms_Parts := [ex_p2], ms_TotalParts := 1\<rparr>],
       disk = [''r/b'' \<mapsto> Directory,
               ''r/b/o$1'' \<mapsto> RegularFile ''hello'' 0,
               ''r/b/o$2'' \<mapsto> RegularFile ''world'' 0,
               ''r/b/o$multiparts'' \<mapsto>
                 RegularFile (enc_session ex_d0 @
                              enc_session (ex_d0\<lparr>ms_Parts := [ex_p1], ms_TotalParts := 1\<rparr>) @
                              enc_session (ex_d0\<lparr>ms_Parts := [ex_p2], ms_TotalParts := 1\<rparr>)) 0],
       tmpfiles = Map.empty, config = [''o'' \<mapsto> ex_d0],
       availableDiskSpace = 50, clock = 0, fault = (\<lambda>c. False),
       trace = [Sys (OpenFile ''r/b/o$multiparts''), MapStore ''o'',
                Sys (Write ''r/b/o$multiparts''), Sys Save,
                Sys (FileCreate ''r/b/o$1''), Sys (Close ''r/b/o$1''), MapStore ''o'',
                Sys (Write ''r/b/o$multiparts''),
                Sys (FileCreate ''r/b/o$2''), Sys (Close ''r/b/o$2''), MapStore ''o'',
                Sys (Write ''r/b/o$multiparts'')]\<rparr>)"
  by (simp add: CreateObjectPart_def ex_w2_eq ex_defs prim_defs str_defs)

lemmas ex_w3_eq = ex_w3_def [unfolded ex_create2 snd_conv]

lemma ex_ls_sessions:
  "ActiveSession ex_ls =
     [''a'' \<mapsto> \<lparr>ms_UploadID = ''1ba0'', ms_Initiated = 0, ms_TotalParts = 0, ms_Parts = []\<rparr>,
      ''b'' \<mapsto> \<lparr>ms_UploadID = ''1bb0'', ms_Initiated = 0, ms_TotalParts = 0, ms_Parts = []\<rparr>,
      ''c'' \<mapsto> \<lparr>ms_UploadID = ''1bc0'', ms_Initiated = 0, ms_TotalParts = 0, ms_Parts = []\<rparr>,
      ''d'' \<mapsto> \<lparr>ms_UploadID = ''1bd0'', ms_Initiated = 0, ms_TotalParts = 0, ms_Parts = []\<rparr>,
      ''e'' \<mapsto> \<lparr>ms_UploadID = ''1be0'', ms_Initiated = 0, ms_TotalParts = 0, ms_Parts = []\<rparr>]"
  and ex_ls_bucket: "disk ex_ls ''r/b'' = Some Directory" and ex_ls_path: "path ex_ls = ''r''"
  and ex_ls_fault: "fault ex_ls = (\<lambda>c. False)"
  by (simp_all add: ex_ls_def NewMultipartUpload_def ex_defs prim_defs str_defs)

lemma ex_complete1:
  "CompleteMultipartUpload ex_ext ''b'' ''o'' ''7bo0'' (''m1'', None) None ex_w2 =
     (Return ex_meta,
      \<lparr>path = ''r'', minFreeDisk = 10, ActiveSession = Map.empty,
       disk = [''r/b'' \<mapsto> Directory, ''r/b/o'' \<mapsto> RegularFile ''hello'' 0],
       tmpfiles = Map.empty, config = Map.empty,
       availableDiskSpace = 50, clock = 0, fault = (\<lambda>c. False),
       trace = [Sys (OpenFile ''r/b/o$multiparts''), MapStore ''o'',
                Sys (Write ''r/b/o$multiparts''), Sys Save,
                Sys (FileCreate ''r/b/o$1''), Sys (Close ''r/b/o$1''), MapStore ''o'',
                Sys (Write ''r/b/o$multiparts''),
                Sys (FileCreate ''r/b/o''), MapDelete ''o'', Sys (Remove ''r/b/o$1''),
                Sys (Remove ''r/b/o$multiparts''), Sys Save, Sys (Close ''r/b/o'')]\<rparr>)"
  by (simp add: CompleteMultipartUpload_def ex_w2_eq ex_defs prim_defs str_defs ex_meta_def)


lemmas ex_w4_eq = ex_w4_def [unfolded ex_complete1 snd_conv]

lemma ex_new2:
  "NewMultipartUpload ex_ext 8 ''b'' ''o'' ex_w4 =
     (Return ''8bo0'',
      \<lparr>path = ''r'', minFreeDisk = 10,
       ActiveSession = [''o'' \<mapsto> ex_d0\<lparr>ms_UploadID := ''8bo0''\<rparr>],
       disk = [''r/b'' \<mapsto> Directory, ''r/b/o'' \<mapsto> RegularFile ''hello'' 0,
               ''r/b/o$multiparts'' \<mapsto> RegularFile (enc_session (ex_d0\<lparr>ms_UploadID := ''8bo0''\<rparr>)) 0],
       tmpfiles = Map.empty, config = [''o'' \<mapsto> ex_d0\<lparr>ms_UploadID := ''8bo0''\<rparr>],
       availableDiskSpace = 50, clock = 0, fault = (\<lambda>c. False),
       trace = [Sys (OpenFile ''r/b/o$multiparts''), MapStore ''o'',
                Sys (Write ''r/b/o$multiparts''), Sys Save,
                Sys (FileCreate ''r/b/o$1''), Sys (Close ''r/b/o$1''), MapStore ''o'',
                Sys (Write ''r/b/o$multiparts''),
                Sys (FileCreate ''r/b/o''), MapDelete ''o'', Sys (Remove ''r/b/o$1''),
                Sys (Remove ''r/b/o$multiparts''), Sys Save, Sys (Close ''r/b/o''),
                Sys (OpenFile ''r/b/o$multiparts''), MapStore ''o'',
                Sys (Write ''r/b/o$multiparts''), Sys Save]\<rparr>)"
  by (simp add: NewMultipartUpload_def ex_w4_eq ex_defs prim_defs str_defs)

lemmas ex_w5_eq = ex_w5_def [unfolded ex_new2 snd_conv]

lemma ex_complete12:
  "CompleteMultipartUpload ex_ext ''b'' ''o'' ''7bo0'' (''m12'', None) None ex_w3 =
     (Return ex_meta12,
      \<lparr>path = ''r'', minFreeDisk = 10, ActiveSession = Map.empty,
       disk = [''r/b'' \<mapsto> Directory, ''r/b/o'' \<mapsto> RegularFile ''helloworld'' 0],
       tmpfiles = Map.empty, config = Map.empty,
       availableDiskSpace = 50, clock = 0, fault = (\<lambda>c. False),
       trace = [Sys (OpenFile ''r/b/o$multiparts''), MapStore ''o'',
                Sys (Write ''r/b/o$multiparts''), Sys Save,
                Sys (FileCreate ''r/b/o$1''), Sys (Close ''r/b/o$1''), MapStore ''o'',
                Sys (Write ''r/b/o$multiparts''),
                Sys (FileCreate ''r/b/o$2''), Sys (Close ''r/b/o$2''), MapStore ''o'',
                Sys (Write ''r/b/o$multiparts''),
                Sys (FileCreate ''r/b/o''), MapDelete ''o'', Sys (Remove ''r/b/o$1''),
                Sys (Remove ''r/b/o$2''), Sys (Remove ''r/b/o$multiparts''), Sys Save,
                Sys (Close ''r/b/o'')]\<rparr>)"
  by (simp add: CompleteMultipartUpload_def ex_w3_eq ex_defs prim_defs str_defs ex_meta12_def)

lemmas ex_w6_eq = ex_w6_def [unfolded ex_complete12 snd_conv]

subsection \<open>The calls of the commit\<close>

lemma parts_content_Nil: "parts_content w objectPath [] = []"
  by (simp add: parts_content_def)

lemma parts_content_Cons:
  "parts_content w objectPath (part # parts) =
     file_content w (partPath objectPath (cp_PartNumber part)) @ parts_content w objectPath parts"
  by (simp add: parts_content_def)

lemma os_Remove_None:
  "os_Remove p w = (None, w') \<Longrightarrow> w' = log (Sys (Remove p)) (w\<lparr>disk := (disk w)(p := None)\<rparr>)"
  by (auto simp: os_Remove_def split: if_splits option.splits)

lemma os_Remove_Some:
  "os_Remove p w = (Some e, w') \<Longrightarrow> w' = w \<and> e = os_error (Remove p)"
  by (auto simp: os_Remove_def split: if_splits option.splits)

lemma tmpfiles_upd_same:
  "tmpfiles w p = Some c \<Longrightarrow> w\<lparr>tmpfiles := (tmpfiles w)(p \<mapsto> c)\<rparr> = w"
  by (simp add: map_upd_triv)

lemma atomic_Write_None:
  "atomic_Write p b w = (None, w') \<Longrightarrow> tmpfiles w p = Some c \<Longrightarrow>
   w' = w\<lparr>tmpfiles := (tmpfiles w)(p \<mapsto> c @ b)\<rparr>"
  by (auto simp: atomic_Write_def tmpfiles_upd_same split: if_splits option.splits)

lemma atomic_Write_Some:
  "atomic_Write p b w = (Some e, w') \<Longrightarrow> w' = w \<and> e = os_error (Write p)"
  by (auto simp: atomic_Write_def split: if_splits option.splits)

lemma os_OpenFile_Inr:
  "os_OpenFile w p = Inr c \<Longrightarrow> file_content w p = c"
  by (auto simp: os_OpenFile_def file_content_def split: if_splits option.splits node.splits)

lemma concatParts_None:
  "concatParts ext parts objectPath h w = (None, h', w') \<Longrightarrow> tmpfiles w objectPath = Some c \<Longrightarrow>
   h' = h @ parts_content w objectPath parts \<and>
   tmpfiles w' objectPath = Some (c @ parts_content w objectPath parts) \<and>
   disk w' = disk w \<and> trace w' = trace w \<and> ActiveSession w' = ActiveSession w \<and>
   config w' = config w \<and> fault w' = fault w \<and> clock w' = clock w \<and> path w' = path w"
proof (induction parts arbitrary: h w c)
  case Nil
  then show ?case by (simp add: parts_content_Nil)
next
  case (Cons part parts)
  let ?pp = "partPath objectPath (cp_PartNumber part)"
  from Cons.prems(1) obtain obj w1 where
    op: "os_OpenFile w ?pp = Inr obj" and
    wr: "atomic_Write objectPath obj w = (None, w1)" and
    rest: "concatParts ext parts objectPath (h @ obj) w1 = (None, h', w')"
    by (auto simp: Let_def split: sum.splits if_splits option.splits prod.splits)
  have obj: "file_content w ?pp = obj" using op by (rule os_OpenFile_Inr)
  have w1: "w1 = w\<lparr>tmpfiles := (tmpfiles w)(objectPath \<mapsto> c @ obj)\<rparr>"
    using atomic_Write_None [OF wr Cons.prems(2)] .
  have t1: "tmpfiles w1 objectPath = Some (c @ obj)" by (simp add: w1)
  have pc: "parts_content w1 objectPath parts = parts_content w objectPath parts"
    by (simp add: w1 parts_content_def file_content_def)
  have same: "disk w1 = disk w" "trace w1 = trace w" "ActiveSession w1 = ActiveSession w"
    "config w1 = config w" "fault w1 = fault w" "clock w1 = clock w" "path w1 = path w"
    by (simp_all add: w1)
  from Cons.IH [OF rest t1] show ?case
    by (simp add: pc same parts_content_Cons obj)
qed

lemma concatParts_Some:
  "concatParts ext parts objectPath h w = (Some e, h', w') \<Longrightarrow>
   e \<noteq> NewError (Some InvalidPartOrder) \<and> disk w' = disk w"
proof (induction parts arbitrary: h w)
  case Nil
  then show ?case by simp
next
  case (Cons part parts)
  then show ?case
    by (auto simp: Let_def os_OpenFile_def atomic_Write_def
        split: sum.splits if_splits option.splits prod.splits node.splits)
qed

lemma remove_None:
  "CompleteMultipartUpload_remove parts objectPath w = (None, w') \<Longrightarrow>
   disk w' = (\<lambda>q. if q \<in> (\<lambda>part. partPath objectPath (cp_PartNumber part)) ` set parts
                    then None else disk w q) \<and>
   trace w' = trace w @ map (\<lambda>part. Sys (Remove (partPath objectPath (cp_PartNumber part)))) parts \<and>
   tmpfiles w' = tmpfiles w \<and> ActiveSession w' = ActiveSession w \<and>
   config w' = config w \<and> fault w' = fault w \<and> clock w' = clock w \<and> path w' = path w"
proof (induction parts arbitrary: w)
  case Nil
  then show ?case by simp
next
  case (Cons part parts)
  from Cons.prems obtain w1 where
    r: "os_Remove (partPath objectPath (cp_PartNumber part)) w = (None, w1)" and
    rest: "CompleteMultipartUpload_remove parts objectPath w1 = (None, w')"
    by (auto split: option.splits prod.splits)
  show ?case
    using Cons.IH [OF rest] os_Remove_None [OF r]
    by (auto simp: log_def fun_eq_iff)
qed

lemma remove_Some:
  "CompleteMultipartUpload_remove parts objectPath w = (Some e, w') \<Longrightarrow> \<exists>c. e = os_error c"
proof (induction parts arbitrary: w)
  case Nil
  then show ?case by simp
next
  case (Cons part parts)
  then show ?case
    by (auto split: option.splits prod.splits dest: os_Remove_Some)
qed

lemma CompleteMultipartUpload_Return:
  assumes "CompleteMultipartUpload ext bucket object uploadID data signature w = (Return meta, w')"
  obtains parts h w1 w2 w4 w5 w6 sz t where
    "atomic_FileCreate (objectPath_of w bucket object) w = (None, w1)"
    "xml_Unmarshal ext (fst data) = Some parts"
    "concatParts ext parts (objectPath_of w bucket object) [] w1 = (None, h, w2)"
    "CompleteMultipartUpload_remove parts (objectPath_of w bucket object)
       (log (MapDelete object) (w2\<lparr>ActiveSession := (ActiveSession w2)(object := None)\<rparr>)) = (None, w4)"
    "os_Remove (journalPath (objectPath_of w bucket object)) w4 = (None, w5)"
    "SaveMultipartsSession w5 = (None, w6)"
    "w' = atomic_Close (objectPath_of w bucket object) w6"
    "os_Stat w' (objectPath_of w bucket object) = StatOk sz t"
    "om_Md5 meta = hex_EncodeToString (md5_Sum ext h)"
  using assms unfolding CompleteMultipartUpload_def objectPath_of_def Let_def
  by (auto split: if_splits stat_result.splits prod.splits option.splits)


text \<open>
  A successful completion changes the disk at the object path, at the journal and at the
  part files the manifest names only.
\<close>

lemma CompleteMultipartUpload_other_paths:
  assumes "CompleteMultipartUpload ext bucket object uploadID data signature w = (Return meta, w')"
    and "xml_Unmarshal ext (fst data) = Some parts"
    and "q \<noteq> objectPath_of w bucket object"
    and "q \<noteq> journalPath (objectPath_of w bucket object)"
    and "q \<notin> (\<lambda>part. partPath (objectPath_of w bucket object) (cp_PartNumber part)) ` set parts"
  shows "disk w' q = disk w q"
proof -
  let ?op = "objectPath_of w bucket object"
  from assms(1) obtain parts' h w1 w2 w4 w5 w6 where
    c: "atomic_FileCreate ?op w = (None, w1)" and
    x: "xml_Unmarshal ext (fst data) = Some parts'" and
    cc: "concatParts ext parts' ?op [] w1 = (None, h, w2)" and
    rm: "CompleteMultipartUpload_remove parts' ?op
           (log (MapDelete object) (w2\<lparr>ActiveSession := (ActiveSession w2)(object := None)\<rparr>)) = (None, w4)" and
    rj: "os_Remove (journalPath ?op) w4 = (None, w5)" and
    sv: "SaveMultipartsSession w5 = (None, w6)" and
    w': "w' = atomic_Close ?op w6"
    by (rule CompleteMultipartUpload_Return)
  from x assms(2) have [simp]: "parts' = parts" by simp
  have w1: "w1 = log (Sys (FileCreate ?op)) (w\<lparr>tmpfiles := (tmpfiles w)(?op \<mapsto> [])\<rparr>)"
    using c by (auto simp: atomic_FileCreate_def split: if_splits)
  have tmp1: "tmpfiles w1 ?op = Some []" by (simp add: w1 log_def)
  note c2 = concatParts_None [OF cc tmp1, simplified]
  note r4 = remove_None [OF rm, simplified]
  note r5 = os_Remove_None [OF rj]
  have w6: "w6 = log (Sys Save) (w5\<lparr>config := ActiveSession w5\<rparr>)"
    using sv by (auto simp: SaveMultipartsSession_def split: if_splits)
  have "disk w6 q = disk w q"
    using c2 r4 assms(4,5) by (auto simp: w6 r5 log_def w1)
  moreover have "disk w' q = disk w6 q"
    using assms(3) by (auto simp: w' atomic_Close_def log_def split: option.splits)
  ultimately show ?thesis by simp
qed



lemma CompleteMultipartUpload_InvalidPartOrder:
  assumes "fst (CompleteMultipartUpload ext bucket object uploadID data signature w) =
             Fail (NewError (Some InvalidPartOrder))"
    and "snd data = None"
  shows "\<exists>parts. xml_Unmarshal ext (fst data) = Some parts \<and> \<not> completedParts_IsSorted ext parts"
  using assms unfolding CompleteMultipartUpload_def Let_def
  by (auto simp: atomic_FileCreate_def SaveMultipartsSession_def
      split: if_splits stat_result.splits prod.splits option.splits
      dest: concatParts_Some remove_Some os_Remove_Some)

lemma sorted_wrt_less_adjacent:
  "sorted_wrt (<) (xs :: int list) \<Longrightarrow> Suc i < length xs \<Longrightarrow> xs ! i \<noteq> xs ! Suc i"
  using sorted_wrt_nth_less [of "(<)" xs i "Suc i"] by simp

subsection \<open>Hex digests\<close>

lemma hexdigit_inj: "n < 16 \<Longrightarrow> m < 16 \<Longrightarrow> hexdigit n = hexdigit m \<Longrightarrow> n = m"
proof -
  assume a: "n < 16" "m < 16" "hexdigit n = hexdigit m"
  have d: "distinct ''0123456789abcdef''" by simp
  have l: "length ''0123456789abcdef'' = 16" by simp
  from a show ?thesis
    unfolding hexdigit_def using nth_eq_iff_index_eq [OF d, of n m] l by simp
qed

lemma hexdigit_mem: "n < 16 \<Longrightarrow> hexdigit n \<in> set ''0123456789abcdef''"
  unfolding hexdigit_def by (rule nth_mem) simp

lemma of_char_lt: "(of_char c :: nat) < 256"
proof -
  have "(of_char c :: nat) mod 256 < 256" by (rule mod_less_divisor) simp
  then show ?thesis by simp
qed

lemma hex_chars: "c \<in> set (hex_EncodeToString bs) \<Longrightarrow> c \<in> set ''0123456789abcdef''"
proof -
  assume "c \<in> set (hex_EncodeToString bs)"
  then obtain b where "c = hexdigit (of_char b div 16) \<or> c = hexdigit (of_char b mod 16)"
    by (auto simp: hex_EncodeToString_def)
  moreover have "(of_char b :: nat) div 16 < 16"
    using of_char_lt [of b] by (simp add: less_mult_imp_div_less)
  moreover have "(of_char b :: nat) mod 16 < 16" by simp
  ultimately show ?thesis using hexdigit_mem by blast
qed

lemma hex_inj: "hex_EncodeToString a = hex_EncodeToString b \<Longrightarrow> a = b"
proof (induction a arbitrary: b)
  case Nil
  then show ?case by (cases b) (simp_all add: hex_EncodeToString_def)
next
  case (Cons x xs)
  then obtain y ys where b: "b = y # ys" by (cases b) (simp_all add: hex_EncodeToString_def)
  from Cons.prems b have
    hi: "hexdigit (of_char x div 16) = hexdigit (of_char y div 16)" and
    lo: "hexdigit (of_char x mod 16) = hexdigit (of_char y mod 16)" and
    rest: "hex_EncodeToString xs = hex_EncodeToString ys"
    by (simp_all add: hex_EncodeToString_def)
  have dx: "(of_char x :: nat) div 16 < 16" "(of_char y :: nat) div 16 < 16"
    using of_char_lt [of x] of_char_lt [of y] by (simp_all add: less_mult_imp_div_less)
  have "(of_char x :: nat) div 16 = of_char y div 16" using hexdigit_inj [OF dx hi] .
  moreover have "(of_char x :: nat) mod 16 = of_char y mod 16"
    using hexdigit_inj [OF _ _ lo] by simp
  ultimately have "(of_char x :: nat) = of_char y"
    by (metis div_mult_mod_eq)
  then have "x = y" by simp
  with Cons.IH [OF rest] b show ?case by simp
qed

lemma hex_Nil: "hex_EncodeToString d = [] \<longleftrightarrow> d = []"
  by (cases d) (simp_all add: hex_EncodeToString_def)

lemma dropWhile_none: "(\<And>x. x \<in> set xs \<Longrightarrow> \<not> P x) \<Longrightarrow> dropWhile P xs = xs"
  by (cases xs) simp_all

lemma TrimSpace_hex: "strings_TrimSpace (hex_EncodeToString d) = hex_EncodeToString d"
proof -
  have ns: "\<And>c. c \<in> set (hex_EncodeToString d) \<Longrightarrow> \<not> isSpace c"
    using hex_chars [of _ d] by (auto simp: isSpace_def)
  have "dropWhile isSpace (hex_EncodeToString d) = hex_EncodeToString d"
    using ns by (rule dropWhile_none)
  moreover have "dropWhile isSpace (rev (hex_EncodeToString d)) = rev (hex_EncodeToString d)"
    using ns by (intro dropWhile_none) simp
  ultimately show ?thesis by (simp add: strings_TrimSpace_def)
qed

lemma toLower_hexdigits: "\<forall>c \<in> set ''0123456789abcdef''. toLower c = c"
  by (simp add: toLower_def)

lemma toLower_hex: "map toLower (hex_EncodeToString d) = hex_EncodeToString d"
proof -
  have "\<And>c. c \<in> set (hex_EncodeToString d) \<Longrightarrow> toLower c = c"
    using hex_chars [of _ d] toLower_hexdigits by blast
  then show ?thesis by (simp add: map_idI)
qed

lemma isMD5SumEqual_hex:
  "isMD5SumEqual (hex_EncodeToString a) (hex_EncodeToString b) \<longleftrightarrow> a = b"
  using hex_inj by (auto simp: isMD5SumEqual_def toLower_hex)

subsection \<open>Listing the parts of a session\<close>

text \<open>
  C1.  After \<open>NewMultipartUpload\<close> and successful \<open>CreateObjectPart\<close> calls for the parts
  1 to N, \<open>ListObjectParts\<close> with \<open>partNumberMarker = 0\<close> should return the N parts.  It
  does not: \<open>CreateObjectPart\<close> appends its document behind the one \<open>NewMultipartUpload\<close>
  wrote, and \<open>ListObjectParts\<close> decodes the first document of the journal, which has no
  parts.  Already for N = 1, with the five bytes \<open>hello\<close> as part 1, the listing is empty.
\<close>

theorem C1_ListObjectParts_reads_first_document:
  "NewMultipartUpload ex_ext 7 ''b'' ''o'' ex_w0 = (Return ''7bo0'', ex_w1) \<and>
   CreateObjectPart ex_ext ''b'' ''o'' ''7bo0'' [] 1 5 (''hello'', None) None ex_w1 =
     (Return ''6865'', ex_w2) \<and>
   ListObjectParts ex_ext ''b'' ''o'' (ex_resources 0) ex_w2 =
     Return ((ex_resources 0)\<lparr>orm_Bucket := ''b'', orm_Object := ''o'', orm_Part := []\<rparr>)"
proof (intro conjI)
  show "NewMultipartUpload ex_ext 7 ''b'' ''o'' ex_w0 = (Return ''7bo0'', ex_w1)"
    by (simp add: ex_new1 ex_w1_def)
  show "CreateObjectPart ex_ext ''b'' ''o'' ''7bo0'' [] 1 5 (''hello'', None) None ex_w1 =
          (Return ''6865'', ex_w2)"
    by (simp add: ex_create1 ex_w2_def)
  show "ListObjectParts ex_ext ''b'' ''o'' (ex_resources 0) ex_w2 =
          Return ((ex_resources 0)\<lparr>orm_Bucket := ''b'', orm_Object := ''o'', orm_Part := []\<rparr>)"
    by (simp add: ListObjectParts_def ListObjectParts_loop.simps ex_w2_eq ex_defs prim_defs
          str_defs)
qed

text \<open>
  C10.  The descriptors the engine writes have \<open>TotalParts\<close> equal to the length of
  \<open>Parts\<close>, and \<open>ListObjectParts\<close> should never read \<open>Parts\<close> outside its bounds.  The loop
  starts at \<open>partNumberMarker\<close> itself whenever the marker is not 0, so a negative marker
  makes it read \<open>Parts[i - 1]\<close> at a negative index: on a fresh session,
  \<open>partNumberMarker = -1\<close> panics.
\<close>

theorem C10_ListObjectParts_negative_marker_panics:
  "NewMultipartUpload ex_ext 7 ''b'' ''o'' ex_w0 = (Return ''7bo0'', ex_w1) \<and>
   ListObjectParts ex_ext ''b'' ''o'' (ex_resources (- 1)) ex_w1 = Panic"
proof (intro conjI)
  show "NewMultipartUpload ex_ext 7 ''b'' ''o'' ex_w0 = (Return ''7bo0'', ex_w1)"
    by (simp add: ex_new1 ex_w1_def)
  show "ListObjectParts ex_ext ''b'' ''o'' (ex_resources (- 1)) ex_w1 = Panic"
    by (simp add: ListObjectParts_def ListObjectParts_loop.simps ex_w1_eq ex_defs prim_defs
          str_defs)
qed

subsection \<open>Persisting the session map\<close>

text \<open>
  C2.  After every successful mutating operation the configuration file should hold the
  in-memory session map.  \<open>NewMultipartUpload\<close> and \<open>CompleteMultipartUpload\<close> call
  \<open>SaveMultipartsSession\<close>; \<open>CreateObjectPart\<close> and \<open>AbortMultipartUpload\<close> do not.  After the
  upload of part 1 the map holds the descriptor with one part while the file still holds
  the empty one, and after the abort the map has no entry for the object while the file
  still has one.
\<close>

theorem C2_session_map_not_saved:
  "CreateObjectPart ex_ext ''b'' ''o'' ''7bo0'' [] 1 5 (''hello'', None) None ex_w1 =
     (Return ''6865'', ex_w2) \<and>
   ActiveSession ex_w2 ''o'' = Some (ex_d0\<lparr>ms_Parts := [ex_p1], ms_TotalParts := 1\<rparr>) \<and>
   config ex_w2 ''o'' = Some ex_d0 \<and>
   fst (AbortMultipartUpload ex_ext ''b'' ''o'' ''7bo0'' ex_w2) = Return () \<and>
   ActiveSession (snd (AbortMultipartUpload ex_ext ''b'' ''o'' ''7bo0'' ex_w2)) ''o'' = None \<and>
   config (snd (AbortMultipartUpload ex_ext ''b'' ''o'' ''7bo0'' ex_w2)) ''o'' = Some ex_d0"
proof -
  have "CreateObjectPart ex_ext ''b'' ''o'' ''7bo0'' [] 1 5 (''hello'', None) None ex_w1 =
          (Return ''6865'', ex_w2)"
    by (simp add: ex_create1 ex_w2_def)
  moreover have
    "ActiveSession ex_w2 ''o'' = Some (ex_d0\<lparr>ms_Parts := [ex_p1], ms_TotalParts := 1\<rparr>) \<and>
     config ex_w2 ''o'' = Some ex_d0 \<and>
     fst (AbortMultipartUpload ex_ext ''b'' ''o'' ''7bo0'' ex_w2) = Return () \<and>
     ActiveSession (snd (AbortMultipartUpload ex_ext ''b'' ''o'' ''7bo0'' ex_w2)) ''o'' = None \<and>
     config (snd (AbortMultipartUpload ex_ext ''b'' ''o'' ''7bo0'' ex_w2)) ''o'' = Some ex_d0"
    by (simp add: AbortMultipartUpload_def ex_w2_eq ex_defs prim_defs str_defs)
  ultimately show ?thesis by blast
qed

subsection \<open>Aborting a session\<close>

text \<open>
  C7.  \<open>AbortMultipartUpload\<close> should remove every part file of the object.  It removes the
  files of the parts recorded in the in-memory descriptor, and that descriptor is the first
  document of the journal with the latest part appended: after the upload of the parts 1
  and 2 the abort succeeds, removes the file of part 2 and the journal, and leaves the file
  of part 1 on the disk.
\<close>

theorem C7_abort_leaves_part_file:
  "fst (AbortMultipartUpload ex_ext ''b'' ''o'' ''7bo0'' ex_w3) = Return () \<and>
   disk (snd (AbortMultipartUpload ex_ext ''b'' ''o'' ''7bo0'' ex_w3)) ''r/b/o$1'' =
     Some (RegularFile ''hello'' 0) \<and>
   disk (snd (AbortMultipartUpload ex_ext ''b'' ''o'' ''7bo0'' ex_w3)) ''r/b/o$2'' = None \<and>
   disk (snd (AbortMultipartUpload ex_ext ''b'' ''o'' ''7bo0'' ex_w3)) ''r/b/o$multiparts'' = None"
  by (simp add: AbortMultipartUpload_def ex_w3_eq ex_defs prim_defs str_defs)

subsection \<open>Listing the sessions\<close>

text \<open>
  C4.  With \<open>maxUploads = k\<close> and more than \<open>k\<close> matching sessions, the first \<open>k\<close> sessions
  should be returned and \<open>nextKeyMarker\<close> should be the key of the first session left out.
  The loop truncates when the count exceeds \<open>MaxUploads\<close>, that is after \<open>k + 1\<close> entries:
  with the five sessions \<open>a\<close> to \<open>e\<close>, visited in this order, and \<open>maxUploads = 2\<close> the
  result holds \<open>a\<close>, \<open>b\<close> and \<open>c\<close>, and \<open>nextKeyMarker\<close> is \<open>d\<close>.
\<close>

theorem C4_truncation_returns_one_more:
  "ListMultipartUploads ex_ext [''a'', ''b'', ''c'', ''d'', ''e''] ''b'' ex_bucket_resources ex_ls =
     Return (ex_bucket_resources
       \<lparr>bmr_Upload := [\<lparr>um_Object = ''a'', um_UploadID = ''1ba0'', um_Initiated = 0\<rparr>,
                        \<lparr>um_Object = ''b'', um_UploadID = ''1bb0'', um_Initiated = 0\<rparr>,
                        \<lparr>um_Object = ''c'', um_UploadID = ''1bc0'', um_Initiated = 0\<rparr>],
         bmr_NextKeyMarker := ''d'', bmr_NextUploadIDMarker := ''1bd0'',
         bmr_IsTruncated := True\<rparr>)"
  by (simp add: ListMultipartUploads_def ex_ls_sessions ex_ls_bucket ex_ls_path ex_ls_fault
        ex_bucket_resources_def newUpload_def ex_defs os_Stat_def str_defs)

subsection \<open>Completing an upload\<close>








text \<open>
  C5.  \<open>CompleteMultipartUpload\<close> should fail with \<open>InvalidPartOrder\<close>, leaving no file at
  the object path, exactly when the part numbers of the manifest are not strictly
  ascending.  The purge deletes the temporary file and leaves the object path alone, so an
  object stored there before the call is still there.  What holds, for a call that passes
  the checks before the order check and with the order check of the spec: the result is
  \<open>InvalidPartOrder\<close> exactly when the part numbers are not strictly ascending, in particular
  when two neighbours are equal, and then the temporary file is purged and the disk, the
  session map and the configuration file are as before the call.
\<close>

theorem C5_InvalidPartOrder_iff_not_strictly_ascending:
  assumes "IsValidBucket ext bucket" and "IsValidObjectName ext object"
    and "isValidUploadID w object uploadID"
    and "os_Stat w (filepath_Join (path w) bucket) = StatOk bsz bt"
    and "\<not> fault w (FileCreate (objectPath_of w bucket object))"
    and "snd data = None"
    and "case signature of None \<Rightarrow> True
         | Some sig \<Rightarrow> sig (hex_EncodeToString (sha256_Sum ext (fst data))) = (True, None)"
    and "xml_Unmarshal ext (fst data) = Some parts"
    and "completedParts_IsSorted ext = IsSorted_completedParts"
  shows "(fst (CompleteMultipartUpload ext bucket object uploadID data signature w) =
            Fail (NewError (Some InvalidPartOrder)) \<longleftrightarrow>
          \<not> sorted_wrt (<) (map cp_PartNumber parts)) \<and>
         ((\<exists>i. Suc i < length parts \<and> cp_PartNumber (parts ! i) = cp_PartNumber (parts ! Suc i)) \<longrightarrow>
          fst (CompleteMultipartUpload ext bucket object uploadID data signature w) =
            Fail (NewError (Some InvalidPartOrder))) \<and>
         (\<not> sorted_wrt (<) (map cp_PartNumber parts) \<longrightarrow>
          disk (snd (CompleteMultipartUpload ext bucket object uploadID data signature w)) = disk w \<and>
          tmpfiles (snd (CompleteMultipartUpload ext bucket object uploadID data signature w))
            (objectPath_of w bucket object) = None \<and>
          ActiveSession (snd (CompleteMultipartUpload ext bucket object uploadID data signature w)) =
            ActiveSession w \<and>
          config (snd (CompleteMultipartUpload ext bucket object uploadID data signature w)) = config w)"
proof -
  let ?r = "CompleteMultipartUpload ext bucket object uploadID data signature w"
  let ?op = "objectPath_of w bucket object"
  let ?w1 = "log (Sys (FileCreate ?op)) (w\<lparr>tmpfiles := (tmpfiles w)(?op \<mapsto> [])\<rparr>)"
  have sig: "(case signature of None \<Rightarrow> None
              | Some sig \<Rightarrow>
                  (case sig (hex_EncodeToString (sha256_Sum ext (fst data))) of
                     (ok, Some perr) \<Rightarrow> Some (NewError None)
                   | (ok, None) \<Rightarrow>
                       if \<not> ok then Some (NewError (Some SignatureDoesNotMatch)) else None)) = None"
    using assms(7) by (cases signature) simp_all
  have bad: "?r = (Fail (NewError (Some InvalidPartOrder)), atomic_CloseAndPurge ?op ?w1)"
    if "\<not> sorted_wrt (<) (map cp_PartNumber parts)"
    using assms(1-6,8,9) that sig
    by (simp add: CompleteMultipartUpload_def objectPath_of_def Let_def atomic_FileCreate_def
          IsSorted_completedParts_def)
  have good: "fst ?r \<noteq> Fail (NewError (Some InvalidPartOrder))"
    if s: "sorted_wrt (<) (map cp_PartNumber parts)"
    using CompleteMultipartUpload_InvalidPartOrder [of ext bucket object uploadID data signature w]
      assms(6,8,9) s
    by (auto simp: IsSorted_completedParts_def)
  have adj: "\<not> sorted_wrt (<) (map cp_PartNumber parts)"
    if "Suc i < length parts" "cp_PartNumber (parts ! i) = cp_PartNumber (parts ! Suc i)" for i
    using that sorted_wrt_less_adjacent [of "map cp_PartNumber parts" i] by auto
  show ?thesis
    using bad good adj
    by (auto simp: atomic_CloseAndPurge_def log_def)
qed

text \<open>The theorem on the manifest that names part 2 before part 1.\<close>

theorem C5_InvalidPartOrder_iff_not_strictly_ascending_witness:
  "\<not> sorted_wrt (<) (map cp_PartNumber [\<lparr>cp_PartNumber = 2, cp_ETag = ''776f''\<rparr>,
                                         \<lparr>cp_PartNumber = 1, cp_ETag = ''6865''\<rparr>]) \<and>
   fst (CompleteMultipartUpload ex_ext ''b'' ''o'' ''7bo0'' (''m21'', None) None ex_w3) =
     Fail (NewError (Some InvalidPartOrder)) \<and>
   disk (snd (CompleteMultipartUpload ex_ext ''b'' ''o'' ''7bo0'' (''m21'', None) None ex_w3)) =
     disk ex_w3 \<and>
   tmpfiles (snd (CompleteMultipartUpload ex_ext ''b'' ''o'' ''7bo0'' (''m21'', None) None ex_w3))
     ''r/b/o'' = None \<and>
   ActiveSession (snd (CompleteMultipartUpload ex_ext ''b'' ''o'' ''7bo0'' (''m21'', None) None ex_w3)) =
     ActiveSession ex_w3 \<and>
   config (snd (CompleteMultipartUpload ex_ext ''b'' ''o'' ''7bo0'' (''m21'', None) None ex_w3)) =
     config ex_w3"
proof -
  have op: "objectPath_of ex_w3 ''b'' ''o'' = ''r/b/o''"
    by (simp add: objectPath_of_def ex_w3_eq filepath_Join_def)
  have h: "IsValidBucket ex_ext ''b''" "IsValidObjectName ex_ext ''o''"
    "isValidUploadID ex_w3 ''o'' ''7bo0''"
    "os_Stat ex_w3 (filepath_Join (path ex_w3) ''b'') = StatOk 0 0"
    "\<not> fault ex_w3 (FileCreate (objectPath_of ex_w3 ''b'' ''o''))"
    "snd (''m21'', None :: go_error option) = None"
    "case (None :: Signature option) of None \<Rightarrow> True
     | Some sig \<Rightarrow> sig (hex_EncodeToString (sha256_Sum ex_ext (fst (''m21'', None :: go_error option)))) = (True, None)"
    "xml_Unmarshal ex_ext (fst (''m21'', None :: go_error option)) =
       Some [\<lparr>cp_PartNumber = 2, cp_ETag = ''776f''\<rparr>, \<lparr>cp_PartNumber = 1, cp_ETag = ''6865''\<rparr>]"
    "completedParts_IsSorted ex_ext = IsSorted_completedParts"
    by (simp_all add: ex_w3_eq ex_ext_def ex_manifests_def ex_d0_def os_Stat_def
          isValidUploadID_def filepath_Join_def)
  have ns: "\<not> sorted_wrt (<) (map cp_PartNumber [\<lparr>cp_PartNumber = 2, cp_ETag = ''776f''\<rparr>,
                                         \<lparr>cp_PartNumber = 1, cp_ETag = ''6865''\<rparr>])"
    by simp
  from C5_InvalidPartOrder_iff_not_strictly_ascending [OF h] ns show ?thesis
    by (simp add: op)
qed

text \<open>
  Object \<open>o\<close> is completed, a second session for it is opened, and the commit of that
  session names part 2 before part 1: the call fails with \<open>InvalidPartOrder\<close> and the object
  of the first upload is still at the object path.
\<close>

theorem C5_existing_object_remains:
  "fst (CompleteMultipartUpload ex_ext ''b'' ''o'' ''8bo0'' (''m21'', None) None ex_w5) =
     Fail (NewError (Some InvalidPartOrder)) \<and>
   disk (snd (CompleteMultipartUpload ex_ext ''b'' ''o'' ''8bo0'' (''m21'', None) None ex_w5))
     ''r/b/o'' = Some (RegularFile ''hello'' 0)"
  by (simp add: CompleteMultipartUpload_def ex_w5_eq ex_defs prim_defs str_defs)

subsection \<open>A part whose digest does not match\<close>

text \<open>
  C6.  A \<open>CreateObjectPart\<close> call whose \<open>expectedMD5\<close> is not empty, decodes, and differs from
  the MD5 of the streamed bytes should fail with \<open>BadDigest\<close>, with no file at the part path
  afterwards and the session state unchanged.  The purge deletes the temporary file and
  leaves the part path alone, so the file of an earlier upload of the same part is still
  there.  What holds, for a call that passes the checks before the digest check (a base64
  decoding of a non-empty string has at least one byte): the call fails with \<open>BadDigest\<close>,
  the temporary file is purged, and the disk (hence the part path and the journal), the
  session map and the configuration file are as before the call.
\<close>

theorem C6_BadDigest_publishes_nothing:
  assumes "\<not> fault w DiskStat" and "minFreeDisk w < availableDiskSpace w" and "0 < partID"
    and "IsValidBucket ext bucket" and "IsValidObjectName ext object"
    and "isValidUploadID w object uploadID"
    and "strings_TrimSpace expectedMD5Sum \<noteq> []"
    and "base64_StdEncoding_DecodeString ext (strings_TrimSpace expectedMD5Sum) = Some d"
    and "d \<noteq> []"
    and "os_Stat w (filepath_Join (path w) bucket) = StatOk bsz bt"
    and "\<not> fault w (FileCreate (partPath (objectPath_of w bucket object) partID))"
    and "\<not> fault w (Write (partPath (objectPath_of w bucket object) partID))"
    and "size' \<le> int (length (fst data))"
    and "d \<noteq> md5_Sum ext (take (nat size') (fst data))"
  shows "fst (CreateObjectPart ext bucket object uploadID expectedMD5Sum partID size' data signature w) =
           Fail (NewError (Some (BadDigest (hex_EncodeToString d) bucket object))) \<and>
         disk (snd (CreateObjectPart ext bucket object uploadID expectedMD5Sum partID size' data signature w)) =
           disk w \<and>
         tmpfiles (snd (CreateObjectPart ext bucket object uploadID expectedMD5Sum partID size' data signature w))
           (partPath (objectPath_of w bucket object) partID) = None \<and>
         ActiveSession (snd (CreateObjectPart ext bucket object uploadID expectedMD5Sum partID size' data signature w)) =
           ActiveSession w \<and>
         config (snd (CreateObjectPart ext bucket object uploadID expectedMD5Sum partID size' data signature w)) =
           config w"
  using assms
  by (simp add: CreateObjectPart_def objectPath_of_def Let_def atomic_FileCreate_def
        atomic_Write_def atomic_CloseAndPurge_def log_def io_CopyN_def hex_Nil TrimSpace_hex
        isMD5SumEqual_hex)

text \<open>The theorem on part 2, declared with the digest of \<open>world\<close> and sent as \<open>hello\<close>.\<close>

theorem C6_BadDigest_publishes_nothing_witness:
  "fst (CreateObjectPart ex_ext ''b'' ''o'' ''7bo0'' ''wo'' 2 5 (''hello'', None) None ex_w2) =
     Fail (NewError (Some (BadDigest ''776f'' ''b'' ''o''))) \<and>
   disk (snd (CreateObjectPart ex_ext ''b'' ''o'' ''7bo0'' ''wo'' 2 5 (''hello'', None) None ex_w2)) =
     disk ex_w2 \<and>
   disk ex_w2 ''r/b/o$2'' = None \<and>
   tmpfiles (snd (CreateObjectPart ex_ext ''b'' ''o'' ''7bo0'' ''wo'' 2 5 (''hello'', None) None ex_w2))
     ''r/b/o$2'' = None \<and>
   ActiveSession (snd (CreateObjectPart ex_ext ''b'' ''o'' ''7bo0'' ''wo'' 2 5 (''hello'', None) None ex_w2)) =
     ActiveSession ex_w2 \<and>
   config (snd (CreateObjectPart ex_ext ''b'' ''o'' ''7bo0'' ''wo'' 2 5 (''hello'', None) None ex_w2)) =
     config ex_w2"
proof -
  have pp: "partPath (objectPath_of ex_w2 ''b'' ''o'') 2 = ''r/b/o$2''"
    by (simp add: objectPath_of_def ex_w2_eq str_defs)
  have h: "\<not> fault ex_w2 DiskStat" "minFreeDisk ex_w2 < availableDiskSpace ex_w2" "0 < (2 :: int)"
    "IsValidBucket ex_ext ''b''" "IsValidObjectName ex_ext ''o''"
    "isValidUploadID ex_w2 ''o'' ''7bo0''"
    "strings_TrimSpace ''wo'' \<noteq> []"
    "base64_StdEncoding_DecodeString ex_ext (strings_TrimSpace ''wo'') = Some ''wo''"
    "''wo'' \<noteq> []"
    "os_Stat ex_w2 (filepath_Join (path ex_w2) ''b'') = StatOk 0 0"
    "\<not> fault ex_w2 (FileCreate (partPath (objectPath_of ex_w2 ''b'' ''o'') 2))"
    "\<not> fault ex_w2 (Write (partPath (objectPath_of ex_w2 ''b'' ''o'') 2))"
    "5 \<le> int (length (fst (''hello'', None :: go_error option)))"
    "''wo'' \<noteq> md5_Sum ex_ext (take (nat 5) (fst (''hello'', None :: go_error option)))"
    by (simp_all add: ex_w2_eq ex_ext_def ex_d0_def os_Stat_def isValidUploadID_def
          filepath_Join_def strings_TrimSpace_def isSpace_def)
  have hx: "hex_EncodeToString ''wo'' = ''776f''"
    by (simp add: hex_EncodeToString_def hexdigit_def)
  have d2: "disk ex_w2 ''r/b/o$2'' = None" by (simp add: ex_w2_eq)
  from C6_BadDigest_publishes_nothing [OF h, of None] d2 show ?thesis
    by (simp add: pp hx)
qed

text \<open>
  Part 1 is uploaded, then sent again with the digest of \<open>world\<close> and the bytes \<open>hello\<close>:
  the call fails with \<open>BadDigest\<close> and the file of the first upload is at the part path.
\<close>

theorem C6_earlier_part_file_remains:
  "fst (CreateObjectPart ex_ext ''b'' ''o'' ''7bo0'' ''wo'' 1 5 (''hello'', None) None ex_w2) =
     Fail (NewError (Some (BadDigest ''776f'' ''b'' ''o''))) \<and>
   disk (snd (CreateObjectPart ex_ext ''b'' ''o'' ''7bo0'' ''wo'' 1 5 (''hello'', None) None ex_w2))
     ''r/b/o$1'' = Some (RegularFile ''hello'' 0)"
  by (simp add: CreateObjectPart_def ex_w2_eq ex_defs prim_defs str_defs)

end
